theory Spec2Isabelle
  imports Complex_Main "HOL-Library.Word" "HOL-Library.List_Lexorder" "HOL-Library.Char_ord"
begin

text \<open>
  A shallow embedding of the ingestion pipeline of s57-postgis: the scale-to-zoom mapping,
  the chart reader over the external vector-data source, the JSON and array-expression
  encoders, the database operations and the per-file driver. Pure functions are HOL
  functions; the reader's view of a chart file and the state of the database server are
  explicit values; a loop is a recursive function over the data it visits; a thrown
  exception is a value of a sum or option type. The definitions come first, then the example
  inputs, then the properties.
\<close>

section \<open>ZFinder: scale to zoom (zfinder.hpp)\<close>

text \<open>
  The C++ \<open>int\<close> of the scale arguments is a 32-bit two's complement value, read with
  \<open>sint\<close>. \<open>static_cast<double>\<close> of such a value is exact, and halving a double
  that is greater than 1 is exact as well, so the working copy \<open>zScale\<close> is modelled by
  the rational number it holds. The zoom counter starts at 28 and is decremented at most 31
  times, so the C++ \<open>int\<close> holding it never wraps and is modelled by \<open>int\<close>.
\<close>

type_synonym cint = "32 word"

definition ONE_TO_ONE_ZOOM :: int where
  "ONE_TO_ONE_ZOOM = 28"

text \<open>The \<open>while (zScale > 1.0)\<close> loop of \<open>findZoom\<close>.\<close>

function findZoom_loop :: "rat \<Rightarrow> int \<Rightarrow> int" where
  "findZoom_loop zScale zoom =
     (if zScale > 1 then findZoom_loop (zScale / 2) (zoom - 1) else zoom)"
  by pat_completeness auto
termination
proof (relation "measure (\<lambda>(zScale, zoom). nat \<lceil>zScale\<rceil>)")
  show "wf (measure (\<lambda>(zScale :: rat, zoom :: int). nat \<lceil>zScale\<rceil>))"
    by simp
next
  fix zScale :: rat and zoom :: int
  assume gt: "1 < zScale"
  then have two: "2 \<le> \<lceil>zScale\<rceil>"
    by (simp add: le_ceiling_iff)
  have "zScale / 2 \<le> of_int \<lceil>zScale\<rceil> / 2"
    by (simp add: divide_right_mono)
  also have "\<dots> \<le> of_int (\<lceil>zScale\<rceil> - 1)"
    using two by simp
  finally have "\<lceil>zScale / 2\<rceil> \<le> \<lceil>zScale\<rceil> - 1"
    by (simp only: ceiling_le_iff)
  with two show "((zScale / 2, zoom - 1), (zScale, zoom))
      \<in> measure (\<lambda>(zScale, zoom). nat \<lceil>zScale\<rceil>)"
    by simp
qed

declare findZoom_loop.simps [simp del]

definition findZoom :: "cint \<Rightarrow> int" where
  "findZoom scale = findZoom_loop (of_int (sint scale)) ONE_TO_ONE_ZOOM"

text \<open>\<open>calculateZRange\<close>: the two guarded assignments, then the swap.\<close>

definition calculateZRange :: "cint \<Rightarrow> cint \<Rightarrow> int \<times> int" where
  "calculateZRange scamin scamax =
     (let minZ = (if 0 < sint scamin then findZoom scamin else 0);
          maxZ = (if 0 < sint scamax then findZoom scamax else ONE_TO_ONE_ZOOM)
      in if minZ > maxZ then (maxZ, minZ) else (minZ, maxZ))"

section \<open>Strings, \<open>std::map\<close> and \<open>std::stoi\<close>\<close>

text \<open>
  A \<open>std::string\<close> is a list of bytes. A \<open>std::map<std::string, std::string>\<close> is
  the list of its entries in ascending key order (the order its iterator visits them);
  \<open>map_assign\<close> is \<open>m[k] = v\<close> and \<open>map_find\<close> is \<open>m.find(k)\<close>, with
  \<open>None\<close> for \<open>m.end()\<close>.
\<close>

type_synonym std_map = "(string \<times> string) list"

fun map_assign :: "string \<Rightarrow> string \<Rightarrow> std_map \<Rightarrow> std_map" where
  "map_assign k v [] = [(k, v)]"
| "map_assign k v ((k', v') # m) =
     (if k < k' then (k, v) # (k', v') # m
      else if k = k' then (k, v) # m
      else (k', v') # map_assign k v m)"

definition map_find :: "std_map \<Rightarrow> string \<Rightarrow> string option" where
  "map_find m k = map_of m k"

text \<open>
  \<open>std::stoi(str)\<close> in base 10: white space is skipped, an optional sign is read, then the
  longest run of digits. It throws \<open>std::invalid_argument\<close> when there is no digit and
  \<open>std::out_of_range\<close> when the value does not fit an \<open>int\<close>.
\<close>

datatype stoi_error = invalid_argument | out_of_range

definition isspace :: "char \<Rightarrow> bool" where
  "isspace c \<longleftrightarrow> c = CHR '' '' \<or> (9 \<le> (of_char c :: nat) \<and> (of_char c :: nat) \<le> 13)"

definition isdigit :: "char \<Rightarrow> bool" where
  "isdigit c \<longleftrightarrow> 48 \<le> (of_char c :: nat) \<and> (of_char c :: nat) \<le> 57"

definition decimal :: "string \<Rightarrow> nat" where
  "decimal ds = foldl (\<lambda>a c. 10 * a + (of_char c - 48)) 0 ds"

definition stoi :: "string \<Rightarrow> stoi_error + cint" where
  "stoi str =
     (let s1 = dropWhile isspace str;
          neg = (case s1 of c # _ \<Rightarrow> c = CHR ''-'' | [] \<Rightarrow> False);
          s2 = (case s1 of c # r \<Rightarrow> if c = CHR ''-'' \<or> c = CHR ''+'' then r else s1
                | [] \<Rightarrow> []);
          ds = takeWhile isdigit s2;
          v = (if neg then - int (decimal ds) else int (decimal ds))
      in if ds = [] then Inl invalid_argument
         else if v < - (2 ^ 31) \<or> 2 ^ 31 \<le> v then Inl out_of_range
         else Inr (word_of_int v))"

text \<open>
  \<open>EQUAL\<close> is the byte-wise comparison of the vector-data library that ignores the case
  of ASCII letters; its name lookups use it.
\<close>

definition fold_case :: "char \<Rightarrow> nat" where
  "fold_case c = (let n = of_char c in if 97 \<le> n \<and> n \<le> 122 then n - 32 else n)"

definition EQUAL :: "string \<Rightarrow> string \<Rightarrow> bool" where
  "EQUAL a b \<longleftrightarrow> map fold_case a = map fold_case b"

section \<open>JSON utilities (json\_utils.cpp)\<close>

fun hex_digits :: "nat \<Rightarrow> string" where
  "hex_digits n =
     (if n < 16 then [''0123456789abcdef'' ! n]
      else hex_digits (n div 16) @ [''0123456789abcdef'' ! (n mod 16)])"

declare hex_digits.simps [simp del]

text \<open>\<open>std::hex << std::setw(4) << std::setfill('0')\<close> applied to a non-negative number.\<close>

definition hex_setw4 :: "nat \<Rightarrow> string" where
  "hex_setw4 n = replicate (4 - length (hex_digits n)) CHR ''0'' @ hex_digits n"

definition escapeChar :: "char \<Rightarrow> string" where
  "escapeChar c =
     (if c = CHR 0x22 then [CHR 0x5C, CHR 0x22]
      else if c = CHR 0x5C then [CHR 0x5C, CHR 0x5C]
      else if c = CHR 0x08 then [CHR 0x5C, CHR ''b'']
      else if c = CHR 0x0C then [CHR 0x5C, CHR ''f'']
      else if c = CHR 0x0A then [CHR 0x5C, CHR ''n'']
      else if c = CHR 0x0D then [CHR 0x5C, CHR ''r'']
      else if c = CHR 0x09 then [CHR 0x5C, CHR ''t'']
      else if (of_char c :: nat) < 32 then [CHR 0x5C, CHR ''u''] @ hex_setw4 (of_char c)
      else [c])"

definition escapeString :: "string \<Rightarrow> string" where
  "escapeString str = concat (map escapeChar str)"

text \<open>The loop of \<open>toJsonObject\<close> with its \<open>first\<close> flag; \<open>ss\<close> is the stream so far.\<close>

fun toJsonObject_loop :: "std_map \<Rightarrow> bool \<Rightarrow> string \<Rightarrow> string" where
  "toJsonObject_loop [] first ss = ss"
| "toJsonObject_loop ((key, val) # props) first ss =
     toJsonObject_loop props False
       (ss @ (if \<not> first then '','' else [])
           @ [CHR 0x22] @ escapeString key @ [CHR 0x22] @ '':'' @ [CHR 0x22]
           @ escapeString val @ [CHR 0x22])"

definition toJsonObject :: "std_map \<Rightarrow> string" where
  "toJsonObject props = toJsonObject_loop props True ''{'' @ ''}''"

section \<open>The vector-data source as the reader sees it\<close>

text \<open>
  The external reader is modelled by what \<open>s57.cpp\<close> observes of it. A field of a record
  is its name, the answers of \<open>IsFieldSet\<close> and \<open>IsFieldNull\<close>, its string form and
  its string-list form (\<open>None\<close> for a null pointer). A geometry is its flattened type, the
  answer of \<open>Is3D\<close>, the Z value of a point, and the text \<open>exportToJson\<close> returns once
  the geometry has been reprojected to WGS84 (\<open>None\<close> for a null pointer). The reader
  opens whatever vector file the external library recognises, so a layer may hold geometries
  of any type and a coordinate may be any \<open>double\<close>.

  A \<open>double\<close> is its sign bit (\<open>True\<close> for negative) with a mantissa \<open>m\<close> and a
  binary exponent \<open>e\<close>, of magnitude \<open>m\<cdot>2\<^sup>e\<close> (every finite double, the two zeros
  included, is of this form), or an infinity, or a NaN.
\<close>

datatype double = Finite bool nat int | Infinite bool | NaN bool

definition magnitude :: "nat \<Rightarrow> int \<Rightarrow> rat" where
  "magnitude m e = (if 0 \<le> e then of_nat m * 2 ^ nat e else of_nat m / 2 ^ nat (- e))"

record OGRField =
  GetNameRef :: string
  IsFieldSet :: bool
  IsFieldNull :: bool
  GetFieldAsString :: string
  GetFieldAsStringList :: "string list option"

datatype OGRwkbGeometryType =
  wkbUnknown | wkbPoint | wkbLineString | wkbPolygon
  | wkbMultiPoint | wkbMultiLineString | wkbMultiPolygon | wkbGeometryCollection

record OGRGeometry =
  flatGeometryType :: OGRwkbGeometryType
  Is3D :: bool
  getZ :: double
  exportToJson :: "string option"

record OGRFeature =
  fieldList :: "OGRField list"
  GetGeometryRef :: "OGRGeometry option"

record OGRLayer =
  GetName :: string
  records :: "OGRFeature list"

record GDALDataset =
  layers :: "OGRLayer list"

text \<open>
  \<open>GetLayerByName\<close> looks for an exact match first and then for a match ignoring case;
  \<open>GetFieldIndex\<close> ignores case. Both return the first match, here the layer or the field
  itself, \<open>None\<close> standing for the null pointer or the index \<open>-1\<close>.
\<close>

definition GetLayerByName :: "GDALDataset \<Rightarrow> string \<Rightarrow> OGRLayer option" where
  "GetLayerByName ds name =
     (case find (\<lambda>l. GetName l = name) (layers ds) of
        Some l \<Rightarrow> Some l
      | None \<Rightarrow> find (\<lambda>l. EQUAL (GetName l) name) (layers ds))"

definition GetFieldIndex :: "OGRFeature \<Rightarrow> string \<Rightarrow> OGRField option" where
  "GetFieldIndex feature name = find (\<lambda>f. EQUAL (GetNameRef f) name) (fieldList feature)"

text \<open>
  \<open>ss << std::fixed << std::setprecision(1) << meters\<close>: a finite value is rounded to
  one decimal place, to nearest with ties to even, and printed after the minus sign when the
  sign bit is set, so that negative zero prints \<open>-0.0\<close>; an infinity prints \<open>inf\<close> and
  a NaN prints \<open>nan\<close>, after the same sign.
\<close>

fun digits10 :: "nat \<Rightarrow> string" where
  "digits10 n =
     (if n < 10 then [''0123456789'' ! n]
      else digits10 (n div 10) @ [''0123456789'' ! (n mod 10)])"

declare digits10.simps [simp del]

definition round_half_even :: "rat \<Rightarrow> int" where
  "round_half_even x =
     (let f = \<lfloor>x\<rfloor>; d = x - of_int f
      in if d < 1 / 2 then f else if 1 / 2 < d then f + 1 else if even f then f else f + 1)"

fun fixed1 :: "double \<Rightarrow> string" where
  "fixed1 (Finite neg m e) =
     (let n = nat (round_half_even (magnitude m e * 10))
      in (if neg then ''-'' else []) @ digits10 (n div 10) @ ''.'' @ digits10 (n mod 10))"
| "fixed1 (Infinite neg) = (if neg then ''-'' else []) @ ''inf''"
| "fixed1 (NaN neg) = (if neg then ''-'' else []) @ ''nan''"

declare fixed1.simps [simp del]

section \<open>Common types (types.hpp)\<close>

record ChartInfo =
  name :: string
  scale :: cint
  fileName :: string
  updated :: string
  issued :: string
  zoom :: int
  covrGeoJson :: string
  dsidProps :: string
  chartTxt :: string

definition ChartInfo_default :: ChartInfo where
  "ChartInfo_default =
     \<lparr>name = [], scale = 0, fileName = [], updated = [], issued = [], zoom = 0,
      covrGeoJson = [], dsidProps = [], chartTxt = []\<rparr>"

record Feature =
  layer :: string
  geomGeoJson :: string
  propsJson :: string
  minZ :: int
  maxZ :: int
  lnamRefs :: "string list"

definition Feature_default :: Feature where
  "Feature_default =
     \<lparr>layer = [], geomGeoJson = [], propsJson = [], minZ = 0, maxZ = 28, lnamRefs = []\<rparr>"

record ProcessingResult =
  success :: bool
  resultFileName :: string
  chartName :: string
  featureCount :: cint
  errorMessage :: string

definition ProcessingResult_default :: ProcessingResult where
  "ProcessingResult_default =
     \<lparr>success = False, resultFileName = [], chartName = [], featureCount = 0,
      errorMessage = []\<rparr>"

definition EXCLUDED_LAYERS :: "string list" where
  "EXCLUDED_LAYERS = [''DSID'', ''IsolatedNode'', ''ConnectedNode'', ''Edge'', ''Face'']"

section \<open>The chart reader (s57.cpp)\<close>

text \<open>
  \<open>std::filesystem::path(p).filename()\<close> and \<open>.stem()\<close> for a path with \<open>/\<close> as
  separator: the file name is what follows the last separator; the stem drops the last
  extension, except for the names \<open>.\<close> and \<open>..\<close> and for a name whose only dot is
  its first character.
\<close>

definition path_filename :: "string \<Rightarrow> string" where
  "path_filename p = rev (takeWhile (\<lambda>c. c \<noteq> CHR ''/'') (rev p))"

definition path_stem :: "string \<Rightarrow> string" where
  "path_stem p =
     (let f = path_filename p;
          ext = takeWhile (\<lambda>c. c \<noteq> CHR ''.'') (rev f);
          base = take (length f - length ext - 1) f
      in if CHR ''.'' \<notin> set f \<or> base = [] \<or> f = ''..'' then f else base)"

record S57 =
  filePath_S57 :: string
  dataset_S57 :: "GDALDataset option"
  initialized_S57 :: bool

text \<open>The constructor; \<open>GDALOpenEx\<close> is the external reader opening the file.\<close>

definition S57_new :: "(string \<Rightarrow> GDALDataset option) \<Rightarrow> string \<Rightarrow> S57" where
  "S57_new GDALOpenEx filePath =
     \<lparr>filePath_S57 = filePath, dataset_S57 = GDALOpenEx filePath,
      initialized_S57 = (GDALOpenEx filePath \<noteq> None)\<rparr>"

definition isOpen :: "S57 \<Rightarrow> bool" where
  "isOpen s \<longleftrightarrow> initialized_S57 s \<and> dataset_S57 s \<noteq> None"

definition getLayerNames :: "S57 \<Rightarrow> string list" where
  "getLayerNames s =
     (if \<not> isOpen s then []
      else case dataset_S57 s of None \<Rightarrow> [] | Some ds \<Rightarrow> map GetName (layers ds))"

fun isExcludedLayer_loop :: "string list \<Rightarrow> string \<Rightarrow> bool" where
  "isExcludedLayer_loop [] layerName = False"
| "isExcludedLayer_loop (excluded # rest) layerName =
     (if layerName = excluded then True else isExcludedLayer_loop rest layerName)"

definition isExcludedLayer :: "string \<Rightarrow> bool" where
  "isExcludedLayer layerName = isExcludedLayer_loop EXCLUDED_LAYERS layerName"

fun extractProperties_loop :: "OGRField list \<Rightarrow> std_map \<Rightarrow> std_map" where
  "extractProperties_loop [] props = props"
| "extractProperties_loop (f # fs) props =
     extractProperties_loop fs
       (if IsFieldSet f \<and> \<not> IsFieldNull f
        then (if 0 < length (GetFieldAsString f)
              then map_assign (GetNameRef f) (GetFieldAsString f) props else props)
        else props)"

definition extractProperties :: "OGRFeature option \<Rightarrow> std_map" where
  "extractProperties featurePtr =
     (case featurePtr of None \<Rightarrow> []
      | Some feature \<Rightarrow> extractProperties_loop (fieldList feature) [])"

definition geometryToGeoJson :: "OGRGeometry option \<Rightarrow> string" where
  "geometryToGeoJson geometryPtr =
     (case geometryPtr of None \<Rightarrow> ''{}''
      | Some geometry \<Rightarrow> (case exportToJson geometry of None \<Rightarrow> ''{}'' | Some json \<Rightarrow> json))"

text \<open>
  The two blocks of \<open>getScaleRange\<close> have one shape: look the attribute up and, when
  it is there, parse it with \<open>std::stoi\<close>; a \<open>std::stoi\<close> that throws leaves the
  variable at its initial value 0.
\<close>

definition scaleAttribute :: "std_map \<Rightarrow> string \<Rightarrow> cint" where
  "scaleAttribute props key =
     (case map_find props key of None \<Rightarrow> 0
      | Some v \<Rightarrow> (case stoi v of Inl _ \<Rightarrow> 0 | Inr n \<Rightarrow> n))"

definition getScaleRange :: "std_map \<Rightarrow> int \<times> int" where
  "getScaleRange props =
     (let scamin = scaleAttribute props ''SCAMIN'';
          scamax = scaleAttribute props ''SCAMAX''
      in calculateZRange scamin scamax)"

definition firstFeatureProperties :: "S57 \<Rightarrow> string \<Rightarrow> std_map" where
  "firstFeatureProperties s layerName =
     (if \<not> isOpen s then []
      else case dataset_S57 s of None \<Rightarrow> []
        | Some ds \<Rightarrow>
            (case GetLayerByName ds layerName of None \<Rightarrow> []
             | Some l \<Rightarrow> (case records l of [] \<Rightarrow> []
                          | feature # _ \<Rightarrow> extractProperties (Some feature))))"

definition getDsidProperties :: "S57 \<Rightarrow> std_map" where
  "getDsidProperties s = firstFeatureProperties s ''DSID''"

definition getMCovrProperties :: "S57 \<Rightarrow> std_map" where
  "getMCovrProperties s = firstFeatureProperties s ''M_COVR''"

definition getCoverageGeoJson :: "S57 \<Rightarrow> string" where
  "getCoverageGeoJson s =
     (if \<not> isOpen s then ''{}''
      else case dataset_S57 s of None \<Rightarrow> ''{}''
        | Some ds \<Rightarrow>
            (case GetLayerByName ds ''M_COVR'' of None \<Rightarrow> ''{}''
             | Some l \<Rightarrow> (case records l of [] \<Rightarrow> ''{}''
                          | feature # _ \<Rightarrow> geometryToGeoJson (GetGeometryRef feature))))"

definition getChartInfo :: "S57 \<Rightarrow> ChartInfo" where
  "getChartInfo s =
     (if \<not> isOpen s then ChartInfo_default
      else
        let dsid = getDsidProperties s;
            scale' = (case map_find dsid ''DSPM_CSCL'' of None \<Rightarrow> 0
                      | Some v \<Rightarrow> (case stoi v of Inl _ \<Rightarrow> 0 | Inr n \<Rightarrow> n))
        in \<lparr>name = (case map_find dsid ''DSNM'' of Some v \<Rightarrow> v
                     | None \<Rightarrow> path_stem (filePath_S57 s)),
            scale = scale',
            fileName = path_filename (filePath_S57 s),
            updated = (case map_find dsid ''UADT'' of Some v \<Rightarrow> v | None \<Rightarrow> []),
            issued = (case map_find dsid ''ISDT'' of Some v \<Rightarrow> v | None \<Rightarrow> []),
            zoom = (if 0 < sint scale' then findZoom scale' else 0),
            covrGeoJson = getCoverageGeoJson s,
            dsidProps = toJsonObject dsid,
            chartTxt = toJsonObject (getMCovrProperties s)\<rparr>)"

text \<open>
  The body of the record loop of \<open>getLayerFeatures\<close>. \<open>featureProperties\<close> is the
  property map as it stands when it is serialised: the extracted attributes, with
  \<open>METERS\<close> assigned in the \<open>SOUNDG\<close> special case.
\<close>

definition featureProperties :: "string \<Rightarrow> OGRFeature \<Rightarrow> std_map" where
  "featureProperties layerName ogrFeature =
     (let props = extractProperties (Some ogrFeature)
      in if layerName = ''SOUNDG''
         then (case GetGeometryRef ogrFeature of None \<Rightarrow> props
               | Some geom \<Rightarrow>
                   if flatGeometryType geom = wkbPoint
                   then (if Is3D geom
                         then map_assign ''METERS'' (fixed1 (getZ geom)) props else props)
                   else props)
         else props)"

definition featureLnamRefs :: "OGRFeature \<Rightarrow> string list" where
  "featureLnamRefs ogrFeature =
     (case GetFieldIndex ogrFeature ''LNAM_REFS'' of None \<Rightarrow> []
      | Some f \<Rightarrow>
          if IsFieldSet f
          then (case GetFieldAsStringList f of None \<Rightarrow> [] | Some refs \<Rightarrow> refs)
          else [])"

definition makeFeature :: "string \<Rightarrow> OGRFeature \<Rightarrow> Feature" where
  "makeFeature layerName ogrFeature =
     (let props = featureProperties layerName ogrFeature;
          range = getScaleRange props
      in \<lparr>layer = layerName,
          geomGeoJson = (case GetGeometryRef ogrFeature of None \<Rightarrow> []
                         | Some geometry \<Rightarrow> geometryToGeoJson (Some geometry)),
          propsJson = toJsonObject props,
          minZ = fst range,
          maxZ = snd range,
          lnamRefs = featureLnamRefs ogrFeature\<rparr>)"

definition getLayerFeatures :: "S57 \<Rightarrow> string \<Rightarrow> Feature list" where
  "getLayerFeatures s layerName =
     (if \<not> isOpen s then []
      else if isExcludedLayer layerName then []
      else case dataset_S57 s of None \<Rightarrow> []
        | Some ds \<Rightarrow>
            (case GetLayerByName ds layerName of None \<Rightarrow> []
             | Some l \<Rightarrow> map (makeFeature layerName) (records l)))"

fun getAllFeatures_loop :: "S57 \<Rightarrow> string list \<Rightarrow> Feature list \<Rightarrow> Feature list" where
  "getAllFeatures_loop s [] allFeatures = allFeatures"
| "getAllFeatures_loop s (layerName # rest) allFeatures =
     getAllFeatures_loop s rest
       (if \<not> isExcludedLayer layerName
        then allFeatures @ getLayerFeatures s layerName else allFeatures)"

definition getAllFeatures :: "S57 \<Rightarrow> Feature list" where
  "getAllFeatures s =
     (if \<not> isOpen s then [] else getAllFeatures_loop s (getLayerNames s) [])"

section \<open>The database (database.cpp)\<close>

text \<open>
  The server at the other end of the connection is modelled by its two tables, the sequence
  that numbers the charts, and the payloads it accepts: \<open>ST_GeomFromGeoJSON_ok\<close> and
  \<open>jsonb_ok\<close> say whether a text parses as a geometry and as JSON. \<open>work_count\<close>
  counts the transactions (\<open>pqxx::work\<close> objects) opened on the connection; statements
  are executed inside a transaction only. A statement that the server rejects throws; every
  operation of \<open>Database\<close> catches the exception, and the transaction object that is
  destroyed without \<open>commit\<close> leaves the tables as they were. Row identifiers are numbers
  of type \<open>int64_t\<close>, modelled by \<open>int\<close>. The surrogate key of a feature row is not
  modelled.
\<close>

datatype sql_value = SQL_NULL | SQL_ARRAY "string list"

record FeatureRow =
  row_layer :: string
  row_geom :: string
  row_props :: string
  row_chart_id :: int
  row_lnam_refs :: sql_value
  row_z_range :: "int \<times> int"

record pqxx_connection =
  charts_table :: "(int \<times> ChartInfo) list"
  features_table :: "FeatureRow list"
  charts_id_seq :: int
  ST_GeomFromGeoJSON_ok :: "string \<Rightarrow> bool"
  jsonb_ok :: "string \<Rightarrow> bool"
  work_count :: nat

text \<open>
  \<open>conn_Database\<close> is \<open>None\<close> when the pointer is null or the connection is not open,
  so \<open>isConnected\<close> is \<open>conn_ && conn_->is_open()\<close>.
\<close>

record Database =
  conn_Database :: "pqxx_connection option"
  inTransaction_Database :: bool

definition isConnected :: "Database \<Rightarrow> bool" where
  "isConnected db \<longleftrightarrow> conn_Database db \<noteq> None"

text \<open>\<open>pqxx::work txn(*conn_)\<close>: a transaction is opened.\<close>

definition open_work :: "pqxx_connection \<Rightarrow> pqxx_connection" where
  "open_work pg = pg\<lparr>work_count := work_count pg + 1\<rparr>"

subsection \<open>\<open>lnamRefsToArrayLiteral\<close>\<close>

fun escapeQuotes_loop :: "string \<Rightarrow> string \<Rightarrow> string" where
  "escapeQuotes_loop [] escaped = escaped"
| "escapeQuotes_loop (c # cs) escaped =
     escapeQuotes_loop cs
       (if c = CHR 0x27 then escaped @ [CHR 0x27, CHR 0x27] else escaped @ [c])"

fun lnamRefsToArrayLiteral_loop :: "string list \<Rightarrow> bool \<Rightarrow> string \<Rightarrow> string" where
  "lnamRefsToArrayLiteral_loop [] first ss = ss"
| "lnamRefsToArrayLiteral_loop (ref # refs) first ss =
     lnamRefsToArrayLiteral_loop refs False
       (ss @ (if \<not> first then '','' else [])
           @ [CHR 0x27] @ escapeQuotes_loop ref [] @ [CHR 0x27])"

definition lnamRefsToArrayLiteral :: "string list \<Rightarrow> string" where
  "lnamRefsToArrayLiteral refs =
     (if refs = [] then ''NULL''
      else lnamRefsToArrayLiteral_loop refs True ''ARRAY['' @ '']::varchar[]'')"

text \<open>
  Reading the expression back, as the server does when it evaluates the statement text:
  \<open>NULL\<close> is the null value; after \<open>ARRAY[\<close> come string constants separated by
  commas and closed by \<open>]::varchar[]\<close>. Inside a string constant two quote characters
  stand for one, and a single quote character ends the constant. \<open>None\<close> is a syntax error.
\<close>

datatype scan_state = ExpectConstant | InConstant | AfterQuote

fun scanArray :: "scan_state \<Rightarrow> string \<Rightarrow> string list \<Rightarrow> string \<Rightarrow> string list option" where
  "scanArray st cur acc [] = None"
| "scanArray ExpectConstant cur acc (c # cs) =
     (if c = CHR 0x27 then scanArray InConstant [] acc cs else None)"
| "scanArray InConstant cur acc (c # cs) =
     (if c = CHR 0x27 then scanArray AfterQuote cur acc cs
      else scanArray InConstant (cur @ [c]) acc cs)"
| "scanArray AfterQuote cur acc (c # cs) =
     (if c = CHR 0x27 then scanArray InConstant (cur @ [CHR 0x27]) acc cs
      else if c = CHR '','' then scanArray ExpectConstant [] (acc @ [cur]) cs
      else if c # cs = '']::varchar[]'' then Some (acc @ [cur])
      else None)"

definition readArrayLiteral :: "string \<Rightarrow> sql_value option" where
  "readArrayLiteral s =
     (if s = ''NULL'' then Some SQL_NULL
      else if take 6 s = ''ARRAY[''
           then map_option SQL_ARRAY (scanArray ExpectConstant [] [] (drop 6 s))
           else None)"

subsection \<open>Operations\<close>

text \<open>
  \<open>insertChart\<close>: the \<open>INSERT\<close> throws on a duplicate name or a payload the server
  does not parse; otherwise the row is stored under the next number of the sequence, which
  \<open>RETURNING id\<close> hands back.
\<close>

definition insertChart :: "ChartInfo \<Rightarrow> Database \<Rightarrow> int option \<times> Database" where
  "insertChart chart db =
     (case conn_Database db of None \<Rightarrow> (None, db)
      | Some pg0 \<Rightarrow>
          let pg = open_work pg0
          in if name chart \<in> set (map (\<lambda>(i, c). name c) (charts_table pg))
                \<or> \<not> ST_GeomFromGeoJSON_ok pg (covrGeoJson chart)
                \<or> \<not> jsonb_ok pg (dsidProps chart) \<or> \<not> jsonb_ok pg (chartTxt chart)
             then (None, db\<lparr>conn_Database := Some pg\<rparr>)
             else
               let newId = charts_id_seq pg + 1;
                   pg' = pg\<lparr>charts_table := charts_table pg @ [(newId, chart)],
                            charts_id_seq := newId\<rparr>
               in (Some newId, db\<lparr>conn_Database := Some pg'\<rparr>))"

text \<open>
  One \<open>INSERT INTO features\<close> inside the transaction of \<open>insertFeatures\<close>; \<open>None\<close>
  when the statement throws: a payload that does not parse, a chart identifier that no chart
  row has, a range whose lower bound exceeds its upper bound, or an array expression that
  does not read. \<open>row_z_range\<close> keeps the two arguments of \<open>int4range\<close>.
\<close>

definition exec_insert_feature :: "pqxx_connection \<Rightarrow> int \<Rightarrow> Feature \<Rightarrow> pqxx_connection option" where
  "exec_insert_feature pg chartId feature =
     (case readArrayLiteral (lnamRefsToArrayLiteral (lnamRefs feature)) of
        None \<Rightarrow> None
      | Some refs \<Rightarrow>
          if ST_GeomFromGeoJSON_ok pg (geomGeoJson feature) \<and> jsonb_ok pg (propsJson feature)
             \<and> chartId \<in> set (map fst (charts_table pg)) \<and> minZ feature \<le> maxZ feature
          then Some (pg\<lparr>features_table := features_table pg @
                 [\<lparr>row_layer = layer feature, row_geom = geomGeoJson feature,
                   row_props = propsJson feature, row_chart_id = chartId,
                   row_lnam_refs = refs, row_z_range = (minZ feature, maxZ feature)\<rparr>]\<rparr>)
          else None)"

fun insertFeatures_loop :: "pqxx_connection \<Rightarrow> int \<Rightarrow> Feature list \<Rightarrow> pqxx_connection option" where
  "insertFeatures_loop pg chartId [] = Some pg"
| "insertFeatures_loop pg chartId (feature # rest) =
     (case exec_insert_feature pg chartId feature of
        None \<Rightarrow> None
      | Some pg' \<Rightarrow> insertFeatures_loop pg' chartId rest)"

definition insertFeatures :: "int \<Rightarrow> Feature list \<Rightarrow> Database \<Rightarrow> bool \<times> Database" where
  "insertFeatures chartId batch db =
     (case conn_Database db of None \<Rightarrow> (False, db)
      | Some pg0 \<Rightarrow>
          if batch = [] then (True, db)
          else
            let pg = open_work pg0
            in (case insertFeatures_loop pg chartId batch of
                  None \<Rightarrow> (False, db\<lparr>conn_Database := Some pg\<rparr>)
                | Some pg' \<Rightarrow> (True, db\<lparr>conn_Database := Some pg'\<rparr>)))"

definition chartExists :: "string \<Rightarrow> Database \<Rightarrow> bool \<times> Database" where
  "chartExists nm db =
     (case conn_Database db of None \<Rightarrow> (False, db)
      | Some pg0 \<Rightarrow>
          let pg = open_work pg0
          in (0 < length (filter (\<lambda>(i, c). name c = nm) (charts_table pg)),
              db\<lparr>conn_Database := Some pg\<rparr>))"

definition deleteChart :: "string \<Rightarrow> Database \<Rightarrow> bool \<times> Database" where
  "deleteChart nm db =
     (case conn_Database db of None \<Rightarrow> (False, db)
      | Some pg0 \<Rightarrow>
          let pg = open_work pg0
          in (case filter (\<lambda>(i, c). name c = nm) (charts_table pg) of
             [] \<Rightarrow> (True, db\<lparr>conn_Database := Some pg\<rparr>)
           | (chartId, _) # _ \<Rightarrow>
               let pg1 = pg\<lparr>features_table :=
                           filter (\<lambda>r. row_chart_id r \<noteq> chartId) (features_table pg)\<rparr>;
                   pg2 = pg1\<lparr>charts_table :=
                           filter (\<lambda>(i, c). i \<noteq> chartId) (charts_table pg1)\<rparr>
               in (True, db\<lparr>conn_Database := Some pg2\<rparr>)))"

definition getChartCount :: "Database \<Rightarrow> int \<times> Database" where
  "getChartCount db =
     (case conn_Database db of None \<Rightarrow> (0, db)
      | Some pg \<Rightarrow>
          (int (length (charts_table pg)), db\<lparr>conn_Database := Some (open_work pg)\<rparr>))"

definition getFeatureCount :: "Database \<Rightarrow> int \<times> Database" where
  "getFeatureCount db =
     (case conn_Database db of None \<Rightarrow> (0, db)
      | Some pg \<Rightarrow>
          (int (length (features_table pg)), db\<lparr>conn_Database := Some (open_work pg)\<rparr>))"

section \<open>Ingestion (ingest.cpp)\<close>

text \<open>
  The batch loop of \<open>processFile\<close>: \<open>i\<close> runs over the feature vector in steps of
  \<open>batchSize\<close>; the result is \<open>False\<close> as soon as one \<open>insertFeatures\<close> fails.
\<close>

definition batchSize :: nat where
  "batchSize = 1000"

function processFile_loop :: "nat \<Rightarrow> Feature list \<Rightarrow> int \<Rightarrow> Database \<Rightarrow> bool \<times> Database" where
  "processFile_loop i fs chartId db =
     (if i < length fs
      then
        let endIdx = min (i + batchSize) (length fs);
            batch = take (endIdx - i) (drop i fs);
            r = insertFeatures chartId batch db
        in if \<not> fst r then (False, snd r)
           else processFile_loop (i + batchSize) fs chartId (snd r)
      else (True, db))"
  by pat_completeness auto
termination
  by (relation "measure (\<lambda>(i, fs, chartId, db). length fs - i)") (auto simp: batchSize_def)

declare processFile_loop.simps [simp del]

text \<open>
  \<open>processFile\<close>. The reader and the database operations catch their own failures, so
  the \<open>catch\<close> block of \<open>processFile\<close> has no counterpart here; the messages printed
  in verbose mode are not modelled. \<open>static_cast<int>\<close> of the vector size keeps its low
  32 bits.
\<close>

definition processFile ::
  "(string \<Rightarrow> GDALDataset option) \<Rightarrow> string \<Rightarrow> Database \<Rightarrow> ProcessingResult \<times> Database" where
  "processFile GDALOpenEx filePath db =
     (let result = ProcessingResult_default\<lparr>resultFileName := path_filename filePath\<rparr>;
          s57 = S57_new GDALOpenEx filePath
      in if \<not> isOpen s57
         then (result\<lparr>success := False, errorMessage := ''Failed to open file''\<rparr>, db)
         else
           let chartInfo = getChartInfo s57;
               result = result\<lparr>chartName := name chartInfo\<rparr>;
               ex = chartExists (name chartInfo) db;
               db = (if fst ex then snd (deleteChart (name chartInfo) (snd ex)) else snd ex);
               ins = insertChart chartInfo db
           in case fst ins of
                None \<Rightarrow>
                  (result\<lparr>success := False, errorMessage := ''Failed to insert chart''\<rparr>,
                   snd ins)
              | Some chartId \<Rightarrow>
                  let fs = getAllFeatures s57;
                      result = result\<lparr>featureCount := of_nat (length fs)\<rparr>;
                      r = processFile_loop 0 fs chartId (snd ins)
                  in if \<not> fst r
                     then (result\<lparr>success := False,
                                   errorMessage := ''Failed to insert features''\<rparr>, snd r)
                     else (result\<lparr>success := True\<rparr>, snd r))"

section \<open>Reference definitions for the claims\<close>

text \<open>
  The array expression as the specification words it: every quote character of an element
  doubled, the elements quoted and separated by commas.
\<close>

definition doubleQuotes_spec :: "string \<Rightarrow> string" where
  "doubleQuotes_spec r = concat (map (\<lambda>c. if c = CHR 0x27 then [CHR 0x27, CHR 0x27] else [c]) r)"

fun commaSeparated :: "string list \<Rightarrow> string" where
  "commaSeparated [] = []"
| "commaSeparated [x] = x"
| "commaSeparated (x # y # zs) = x @ '','' @ commaSeparated (y # zs)"

definition arrayLiteral_spec :: "string list \<Rightarrow> string" where
  "arrayLiteral_spec refs =
     ''ARRAY['' @ commaSeparated (map (\<lambda>r. [CHR 0x27] @ doubleQuotes_spec r @ [CHR 0x27]) refs)
       @ '']::varchar[]''"

text \<open>
  The vectors \<open>batch\<close> that the loop of \<open>processFile\<close> builds from index \<open>i\<close> on when
  no insertion fails.
\<close>

function batches_from :: "nat \<Rightarrow> 'a list \<Rightarrow> 'a list list" where
  "batches_from i fs =
     (if i < length fs
      then take (min (i + batchSize) (length fs) - i) (drop i fs)
             # batches_from (i + batchSize) fs
      else [])"
  by pat_completeness auto
termination
  by (relation "measure (\<lambda>(i, fs). length fs - i)") (auto simp: batchSize_def)

declare batches_from.simps [simp del]

text \<open>
  The part of \<open>processFile\<close> that writes the chart row: \<open>chartExists\<close>,
  \<open>deleteChart\<close> when it says so, and \<open>insertChart\<close>.
\<close>

definition replaceChart :: "ChartInfo \<Rightarrow> Database \<Rightarrow> int option \<times> Database" where
  "replaceChart chartInfo db =
     (let ex = chartExists (name chartInfo) db;
          db1 = (if fst ex then snd (deleteChart (name chartInfo) (snd ex)) else snd ex)
      in insertChart chartInfo db1)"

text \<open>
  Whether the server takes the \<open>INSERT\<close> of a feature under a chart identifier, and the
  row it then stores.
\<close>

definition feature_accepted :: "pqxx_connection \<Rightarrow> int \<Rightarrow> Feature \<Rightarrow> bool" where
  "feature_accepted pg chartId feature \<longleftrightarrow> exec_insert_feature pg chartId feature \<noteq> None"

definition feature_row :: "int \<Rightarrow> Feature \<Rightarrow> FeatureRow" where
  "feature_row chartId feature =
     \<lparr>row_layer = layer feature, row_geom = geomGeoJson feature,
      row_props = propsJson feature, row_chart_id = chartId,
      row_lnam_refs = (if lnamRefs feature = [] then SQL_NULL else SQL_ARRAY (lnamRefs feature)),
      row_z_range = (minZ feature, maxZ feature)\<rparr>"

section \<open>Example inputs\<close>

definition stringField :: "string \<Rightarrow> string \<Rightarrow> OGRField" where
  "stringField nm v =
     \<lparr>GetNameRef = nm, IsFieldSet = True, IsFieldNull = False, GetFieldAsString = v,
      GetFieldAsStringList = None\<rparr>"

definition openChart :: "OGRLayer list \<Rightarrow> S57" where
  "openChart ls =
     \<lparr>filePath_S57 = ''US5TX51M.000'', dataset_S57 = Some \<lparr>layers = ls\<rparr>,
      initialized_S57 = True\<rparr>"

text \<open>A buoy whose \<open>SCAMIN\<close> is the nine-digit value 999999999.\<close>

definition buoy_geometry :: OGRGeometry where
  "buoy_geometry =
     \<lparr>flatGeometryType = wkbPoint, Is3D = False, getZ = Finite False 0 0,
      exportToJson = Some ''{ \"type\": \"Point\", \"coordinates\": [ -94.75, 29.25 ] }''\<rparr>"

definition buoy_record :: OGRFeature where
  "buoy_record =
     \<lparr>fieldList = [stringField ''OBJNAM'' ''No 1'', stringField ''SCAMIN'' ''999999999''],
      GetGeometryRef = Some buoy_geometry\<rparr>"




text \<open>
  Soundings: a point with depth 12.375, a multipoint with depths, and a point whose third
  coordinate is an infinity.
\<close>

definition sounding_point_geometry :: OGRGeometry where
  "sounding_point_geometry =
     \<lparr>flatGeometryType = wkbPoint, Is3D = True, getZ = Finite False 99 (- 3),
      exportToJson =
        Some ''{ \"type\": \"Point\", \"coordinates\": [ -94.75, 29.25, 12.375 ] }''\<rparr>"

definition sounding_point :: OGRFeature where
  "sounding_point =
     \<lparr>fieldList = [stringField ''SCAMIN'' ''50000''],
      GetGeometryRef = Some sounding_point_geometry\<rparr>"

definition sounding_multipoint_geometry :: OGRGeometry where
  "sounding_multipoint_geometry =
     \<lparr>flatGeometryType = wkbMultiPoint, Is3D = True, getZ = Finite False 0 0,
      exportToJson =
        Some ''{ \"type\": \"MultiPoint\", \"coordinates\": [ [ -94.75, 29.25, 12.375 ], [ -94.5, 29.5, 7.5 ] ] }''\<rparr>"

definition sounding_multipoint :: OGRFeature where
  "sounding_multipoint =
     \<lparr>fieldList = [], GetGeometryRef = Some sounding_multipoint_geometry\<rparr>"

definition sounding_unbounded :: OGRFeature where
  "sounding_unbounded =
     \<lparr>fieldList = [],
      GetGeometryRef = Some
        \<lparr>flatGeometryType = wkbPoint, Is3D = True, getZ = Infinite False,
         exportToJson = Some ''{ \"type\": \"Point\", \"coordinates\": [ -94.75, 29.25 ] }''\<rparr>\<rparr>"

definition sounding_chart :: S57 where
  "sounding_chart =
     openChart [\<lparr>GetName = ''SOUNDG'', records = [sounding_point, sounding_multipoint]\<rparr>]"

text \<open>A chart with the identification layer, a topology layer of two records and a buoy.\<close>

definition topology_chart :: S57 where
  "topology_chart =
     openChart
       [\<lparr>GetName = ''DSID'', records = [\<lparr>fieldList = [stringField ''DSNM'' ''US5TX51M.000''],
            GetGeometryRef = None\<rparr>]\<rparr>,
        \<lparr>GetName = ''Edge'', records = [\<lparr>fieldList = [], GetGeometryRef = None\<rparr>,
            \<lparr>fieldList = [], GetGeometryRef = None\<rparr>]\<rparr>,
        \<lparr>GetName = ''BOYLAT'', records = [buoy_record]\<rparr>]"

text \<open>
  A store that holds the chart \<open>US5TX51M.000\<close> with two features, on a server that takes
  any JSON text and any geometry text but the empty text and the empty object.
\<close>

definition stocked_server :: pqxx_connection where
  "stocked_server =
     \<lparr>charts_table = [(1, ChartInfo_default\<lparr>name := ''US5TX51M.000''\<rparr>)],
      features_table =
        [\<lparr>row_layer = ''BOYLAT'',
          row_geom = ''{ \"type\": \"Point\", \"coordinates\": [ -94.75, 29.25 ] }'',
          row_props = ''{}'', row_chart_id = 1,
          row_lnam_refs = SQL_NULL, row_z_range = (0, 28)\<rparr>,
         \<lparr>row_layer = ''LIGHTS'',
          row_geom = ''{ \"type\": \"Point\", \"coordinates\": [ -94.5, 29.5 ] }'',
          row_props = ''{}'', row_chart_id = 1,
          row_lnam_refs = SQL_NULL, row_z_range = (12, 28)\<rparr>],
      charts_id_seq = 1,
      ST_GeomFromGeoJSON_ok = (\<lambda>s. s \<noteq> [] \<and> s \<noteq> ''{}''),
      jsonb_ok = (\<lambda>s. True),
      work_count = 0\<rparr>"

definition stocked_db :: Database where
  "stocked_db = \<lparr>conn_Database = Some stocked_server, inTransaction_Database = False\<rparr>"

text \<open>
  A chart file of 1001 records outside the excluded layers: the coverage, 999 buoys, and an
  aggregation record, which has cross-references and no geometry.
\<close>

definition coverage_record :: OGRFeature where
  "coverage_record =
     \<lparr>fieldList = [stringField ''CATCOV'' ''1''],
      GetGeometryRef = Some
        \<lparr>flatGeometryType = wkbPolygon, Is3D = False, getZ = Finite False 0 0,
         exportToJson =
           Some ''{ \"type\": \"Polygon\", \"coordinates\": [ [ [ -95, 29 ], [ -94, 29 ], [ -94, 30 ], [ -95, 29 ] ] ] }''\<rparr>\<rparr>"

definition aggregation_record :: OGRFeature where
  "aggregation_record =
     \<lparr>fieldList =
        [\<lparr>GetNameRef = ''LNAM_REFS'', IsFieldSet = True, IsFieldNull = False,
          GetFieldAsString = ''(2:0226000F4A3B0001,0226000F4A3C0001)'',
          GetFieldAsStringList = Some [''0226000F4A3B0001'', ''0226000F4A3C0001'']\<rparr>],
      GetGeometryRef = None\<rparr>"

definition harbour_layers :: "OGRLayer list" where
  "harbour_layers =
     [\<lparr>GetName = ''DSID'',
       records = [\<lparr>fieldList = [stringField ''DSNM'' ''GB5X01NE.000'',
                                stringField ''DSPM_CSCL'' ''50000''],
                   GetGeometryRef = None\<rparr>]\<rparr>,
      \<lparr>GetName = ''M_COVR'', records = [coverage_record]\<rparr>,
      \<lparr>GetName = ''BOYLAT'', records = replicate 999 buoy_record\<rparr>,
      \<lparr>GetName = ''C_AGGR'', records = [aggregation_record]\<rparr>]"

definition harbour_files :: "string \<Rightarrow> GDALDataset option" where
  "harbour_files p =
     (if p = ''/charts/GB5X01NE.000'' then Some \<lparr>layers = harbour_layers\<rparr> else None)"

definition harbour_chart :: S57 where
  "harbour_chart = S57_new harbour_files ''/charts/GB5X01NE.000''"

text \<open>The stocked store once the chart row of that file has been written.\<close>

definition harbour_server :: pqxx_connection where
  "harbour_server =
     stocked_server
       \<lparr>charts_table := charts_table stocked_server @ [(2, getChartInfo harbour_chart)],
        charts_id_seq := 2, work_count := 2\<rparr>"

section \<open>Properties of ZFinder\<close>

lemma findZoom_loop_le_1: "zScale \<le> 1 \<Longrightarrow> findZoom_loop zScale zm = zm"
  by (simp add: findZoom_loop.simps)

lemma findZoom_loop_step:
  "1 < zScale \<Longrightarrow> findZoom_loop zScale zm = findZoom_loop (zScale / 2) (zm - 1)"
  by (subst findZoom_loop.simps) simp

lemma findZoom_loop_between:
  "2 ^ k < zScale \<Longrightarrow> zScale \<le> 2 ^ (k + 1) \<Longrightarrow>
   findZoom_loop zScale zm = zm - int k - 1"
proof (induction k arbitrary: zScale zm)
  case 0
  then have "1 < zScale" and "zScale / 2 \<le> 1"
    by simp_all
  then show ?case
    by (simp add: findZoom_loop_step findZoom_loop_le_1)
next
  case (Suc k)
  have "(1::rat) \<le> 2 ^ Suc k"
    by (rule one_le_power) simp
  with Suc.prems have gt: "1 < zScale"
    by linarith
  from Suc.prems have "2 ^ k < zScale / 2" and "zScale / 2 \<le> 2 ^ (k + 1)"
    by simp_all
  then have "findZoom_loop (zScale / 2) (zm - 1) = zm - 1 - int k - 1"
    by (rule Suc.IH)
  with gt show ?case
    by (simp add: findZoom_loop_step)
qed

lemma findZoom_between:
  assumes "2 ^ k < sint sc" and "sint sc \<le> 2 ^ (k + 1)"
  shows "findZoom sc = 27 - int k"
proof -
  have "(2::rat) ^ k < of_int (sint sc)"
    using assms(1) by (metis of_int_less_iff of_int_numeral of_int_power)
  moreover have "(of_int (sint sc) :: rat) \<le> 2 ^ (k + 1)"
    using assms(2) by (metis of_int_le_iff of_int_numeral of_int_power)
  ultimately show ?thesis
    unfolding findZoom_def ONE_TO_ONE_ZOOM_def
    by (simp add: findZoom_loop_between)
qed

lemma findZoom_nonpos:
  assumes "sint sc \<le> 1"
  shows "findZoom sc = 28"
proof -
  have "(of_int (sint sc) :: rat) \<le> 1"
    using assms by (simp only: of_int_le_1_iff)
  then show ?thesis
    unfolding findZoom_def ONE_TO_ONE_ZOOM_def by (rule findZoom_loop_le_1)
qed

lemma int_between_powers:
  assumes "1 < (n::int)"
  shows "\<exists>k. 2 ^ k < n \<and> n \<le> 2 ^ (k + 1)"
proof -
  from assms have "2 \<le> nat n" by simp
  then obtain k where "2 ^ k < nat n" "nat n \<le> 2 ^ (k + 1)"
    using ex_power_ivl2 [of 2 "nat n"] by auto
  then have "int (2 ^ k) < n" "n \<le> int (2 ^ (k + 1))"
    using assms by linarith+
  then show ?thesis
    by (intro exI [of _ k]) simp
qed

lemma ceiling_log2_between:
  assumes "2 ^ k < (n::int)" and "n \<le> 2 ^ (k + 1)"
  shows "\<lceil>log 2 (real_of_int n)\<rceil> = int k + 1"
proof -
  have pos: "0 < n"
    using assms(1) by (smt (verit) zero_less_power)
  have a: "2 ^ k < nat n"
    using assms(1) pos by (simp add: nat_less_iff flip: of_nat_power)
  have b: "nat n \<le> 2 ^ (k + 1)"
    using assms(2) pos by (simp add: nat_le_iff)
  have "\<lceil>log (real 2) (real (nat n))\<rceil> = int k + 1"
    using a b by (rule ceiling_log_nat_eq_if) simp
  with pos show ?thesis by simp
qed

lemma findZoom_range: "- 3 \<le> findZoom sc \<and> findZoom sc \<le> 28"
proof (cases "sint sc \<le> 1")
  case True
  then show ?thesis by (simp add: findZoom_nonpos)
next
  case False
  then obtain k where k: "2 ^ k < sint sc" "sint sc \<le> 2 ^ (k + 1)"
    using int_between_powers [of "sint sc"] by auto
  have "sint sc < 2 ^ 31"
    using sint_lt [of sc] by simp
  with k(1) have "(2::int) ^ k < 2 ^ 31" by linarith
  then have "k < 31"
    by (rule power_less_imp_less_exp [rotated]) simp
  with findZoom_between [OF k] show ?thesis by simp
qed

text \<open>
  Claim C1. For every scale greater than 1, \<open>findZoom sc\<close> is 28 minus the ceiling
  of the base-2 logarithm of the scale, and \<open>findZoom 1 = findZoom 0 = 28\<close>.
\<close>

theorem findZoom_ceiling_log2:
  "(1 < sint sc \<longrightarrow> findZoom sc = 28 - \<lceil>log 2 (real_of_int (sint sc))\<rceil>)
   \<and> findZoom 1 = 28 \<and> findZoom 0 = 28"
proof (intro conjI impI)
  assume "1 < sint sc"
  then obtain k where k: "2 ^ k < sint sc" "sint sc \<le> 2 ^ (k + 1)"
    using int_between_powers by blast
  from findZoom_between [OF k] ceiling_log2_between [OF k]
  show "findZoom sc = 28 - \<lceil>log 2 (real_of_int (sint sc))\<rceil>"
    by simp
next
  show "findZoom 1 = 28" by (simp add: findZoom_nonpos)
next
  show "findZoom 0 = 28" by (simp add: findZoom_nonpos)
qed

theorem findZoom_ceiling_log2_witness:
  "1 < sint (50000 :: cint) \<and> findZoom 50000 = 12
   \<and> \<lceil>log 2 (real_of_int (sint (50000 :: cint)))\<rceil> = 16"
proof -
  have gt: "1 < sint (50000 :: cint)" by simp
  have z: "findZoom 50000 = 12"
    by (rule trans [OF findZoom_between [of 15]]) simp_all
  from findZoom_ceiling_log2 [of 50000] gt
  have "findZoom 50000 = 28 - \<lceil>log 2 (real_of_int (sint (50000 :: cint)))\<rceil>"
    by blast
  with z gt show ?thesis by simp
qed

text \<open>
  Claim C2. With \<open>a = findZoom scamin\<close> if \<open>scamin > 0\<close> else 0 and
  \<open>b = findZoom scamax\<close> if \<open>scamax > 0\<close> else 28, \<open>calculateZRange\<close> returns
  \<open>(a, b)\<close>, swapped if \<open>a > b\<close>; the result is ordered, and when both inputs are
  positive its two components are the two zooms in some order.
\<close>

theorem calculateZRange_ordered_pair:
  "(let a = (if 0 < sint scamin then findZoom scamin else 0);
        b = (if 0 < sint scamax then findZoom scamax else 28)
    in calculateZRange scamin scamax = (if a > b then (b, a) else (a, b)))
   \<and> fst (calculateZRange scamin scamax) \<le> snd (calculateZRange scamin scamax)
   \<and> (0 < sint scamin \<and> 0 < sint scamax \<longrightarrow>
        {fst (calculateZRange scamin scamax), snd (calculateZRange scamin scamax)}
          = {findZoom scamin, findZoom scamax})"
  by (auto simp: calculateZRange_def ONE_TO_ONE_ZOOM_def Let_def)

theorem calculateZRange_ordered_pair_witness:
  "0 < sint (50000 :: cint) \<and> 0 < sint (1000 :: cint)
   \<and> calculateZRange 50000 1000 = (12, 18)
   \<and> {fst (calculateZRange 50000 1000), snd (calculateZRange 50000 1000)}
        = {findZoom 50000, findZoom 1000}"
proof -
  have a: "findZoom 50000 = 12"
    by (rule trans [OF findZoom_between [of 15]]) simp_all
  have b: "findZoom 1000 = 18"
    by (rule trans [OF findZoom_between [of 9]]) simp_all
  have c: "calculateZRange 50000 1000 = (12, 18)"
    by (simp add: calculateZRange_def a b Let_def)
  from calculateZRange_ordered_pair [of 50000 1000] c show ?thesis
    by simp
qed

section \<open>Properties of the chart reader\<close>

lemma isExcludedLayer_loop_iff: "isExcludedLayer_loop es n \<longleftrightarrow> n \<in> set es"
  by (induction es) auto

lemma isExcludedLayer_iff:
  "isExcludedLayer n \<longleftrightarrow>
     n \<in> {''DSID'', ''IsolatedNode'', ''ConnectedNode'', ''Edge'', ''Face''}"
  by (simp add: isExcludedLayer_def isExcludedLayer_loop_iff EXCLUDED_LAYERS_def)

lemma getAllFeatures_loop_concat:
  "getAllFeatures_loop s ns acc =
     acc @ concat (map (getLayerFeatures s) (filter (\<lambda>n. \<not> isExcludedLayer n) ns))"
  by (induction ns arbitrary: acc) simp_all

lemma getLayerFeatures_openChart:
  "getLayerFeatures (openChart ls) n =
     (if isExcludedLayer n then []
      else case GetLayerByName \<lparr>layers = ls\<rparr> n of None \<Rightarrow> []
           | Some l \<Rightarrow> map (makeFeature n) (records l))"
  by (simp add: getLayerFeatures_def openChart_def isOpen_def)

lemma getLayerNames_openChart: "getLayerNames (openChart ls) = map GetName ls"
  by (simp add: getLayerNames_def openChart_def isOpen_def)


lemma makeFeature_range:
  "minZ (makeFeature n r) = fst (getScaleRange (featureProperties n r))"
  "maxZ (makeFeature n r) = snd (getScaleRange (featureProperties n r))"
  by (simp_all add: makeFeature_def Let_def)

lemma makeFeature_propsJson:
  "propsJson (makeFeature n r) = toJsonObject (featureProperties n r)"
  by (simp add: makeFeature_def Let_def)

lemma calculateZRange_bounds:
  "- 3 \<le> fst (calculateZRange a b) \<and> fst (calculateZRange a b) \<le> snd (calculateZRange a b)
   \<and> snd (calculateZRange a b) \<le> 28"
  using findZoom_range [of a] findZoom_range [of b]
  by (auto simp: calculateZRange_def ONE_TO_ONE_ZOOM_def Let_def)

lemma findZoom_nonneg:
  assumes "sint sc \<le> 2 ^ 28"
  shows "0 \<le> findZoom sc"
proof (cases "sint sc \<le> 1")
  case True
  then show ?thesis by (simp add: findZoom_nonpos)
next
  case False
  then obtain k where k: "2 ^ k < sint sc" "sint sc \<le> 2 ^ (k + 1)"
    using int_between_powers [of "sint sc"] by auto
  with assms have "(2::int) ^ k < 2 ^ 28" by linarith
  then have "k < 28"
    by (rule power_less_imp_less_exp [rotated]) simp
  with findZoom_between [OF k] show ?thesis by simp
qed

lemma calculateZRange_nonneg:
  "sint a \<le> 2 ^ 28 \<Longrightarrow> sint b \<le> 2 ^ 28 \<Longrightarrow> 0 \<le> fst (calculateZRange a b)"
  using findZoom_nonneg [of a] findZoom_nonneg [of b]
  by (auto simp: calculateZRange_def ONE_TO_ONE_ZOOM_def Let_def)


lemma findZoom_50000: "findZoom 50000 = 12"
  by (rule trans [OF findZoom_between [of 15]]) simp_all





lemma fixed1_sounding: "fixed1 (Finite False 99 (- 3)) = ''12.4''"
  by code_simp

lemma sounding_point_properties:
  "featureProperties ''SOUNDG'' sounding_point =
     [(''METERS'', ''12.4''), (''SCAMIN'', ''50000'')]"
  by (simp add: featureProperties_def extractProperties_def sounding_point_def stringField_def
      sounding_point_geometry_def fixed1_sounding Let_def)

lemma sounding_point_extracted:
  "extractProperties (Some sounding_point) = [(''SCAMIN'', ''50000'')]"
  by (simp add: extractProperties_def sounding_point_def stringField_def)

lemma sounding_multipoint_properties:
  "featureProperties ''SOUNDG'' sounding_multipoint = []"
  by (simp add: featureProperties_def extractProperties_def sounding_multipoint_def
      sounding_multipoint_geometry_def)

lemma sounding_scamin:
  "scaleAttribute [(''METERS'', ''12.4''), (''SCAMIN'', ''50000'')] ''SCAMIN'' = 50000"
  by (simp add: scaleAttribute_def map_find_def stoi_def isspace_def isdigit_def decimal_def
      Let_def)

lemma sounding_scamax:
  "scaleAttribute [(''METERS'', ''12.4''), (''SCAMIN'', ''50000'')] ''SCAMAX'' = 0"
  by (simp add: scaleAttribute_def map_find_def)

lemma scaleAttribute_empty: "scaleAttribute [] key = 0"
  by (simp add: scaleAttribute_def map_find_def)

lemma sounding_features:
  "getLayerFeatures sounding_chart ''SOUNDG'' =
     [makeFeature ''SOUNDG'' sounding_point, makeFeature ''SOUNDG'' sounding_multipoint]"
  by (simp add: sounding_chart_def getLayerFeatures_openChart isExcludedLayer_iff
      GetLayerByName_def)

text \<open>
  Claim C6. A layer whose name is on the exclusion list yields no feature, whatever its
  records; \<open>getAllFeatures\<close> is the concatenation of \<open>getLayerFeatures\<close> over the
  layer names that are not on the list, in the order \<open>getLayerNames\<close> gives them.
\<close>

theorem excluded_layers_and_getAllFeatures:
  "(layerName \<in> {''DSID'', ''IsolatedNode'', ''ConnectedNode'', ''Edge'', ''Face''}
      \<longrightarrow> getLayerFeatures s layerName = [])
   \<and> getAllFeatures s =
       concat (map (getLayerFeatures s)
         (filter (\<lambda>n. n \<notin> {''DSID'', ''IsolatedNode'', ''ConnectedNode'', ''Edge'', ''Face''})
            (getLayerNames s)))"
proof (intro conjI impI)
  assume "layerName \<in> {''DSID'', ''IsolatedNode'', ''ConnectedNode'', ''Edge'', ''Face''}"
  then have "isExcludedLayer layerName"
    by (simp only: isExcludedLayer_iff)
  then show "getLayerFeatures s layerName = []"
    by (simp add: getLayerFeatures_def)
next
  have "getAllFeatures s =
      concat (map (getLayerFeatures s)
        (filter (\<lambda>n. \<not> isExcludedLayer n) (getLayerNames s)))"
    by (simp add: getAllFeatures_def getAllFeatures_loop_concat getLayerNames_def)
  then show "getAllFeatures s =
      concat (map (getLayerFeatures s)
        (filter (\<lambda>n. n \<notin> {''DSID'', ''IsolatedNode'', ''ConnectedNode'', ''Edge'', ''Face''})
           (getLayerNames s)))"
    by (simp only: isExcludedLayer_iff)
qed

theorem excluded_layers_and_getAllFeatures_witness:
  "getLayerNames topology_chart = [''DSID'', ''Edge'', ''BOYLAT'']
   \<and> getLayerFeatures topology_chart ''Edge'' = []
   \<and> getAllFeatures topology_chart = [makeFeature ''BOYLAT'' buoy_record]"
proof -
  have names: "getLayerNames topology_chart = [''DSID'', ''Edge'', ''BOYLAT'']"
    by (simp add: topology_chart_def getLayerNames_openChart)
  have buoy: "getLayerFeatures topology_chart ''BOYLAT'' = [makeFeature ''BOYLAT'' buoy_record]"
    by (simp add: topology_chart_def getLayerFeatures_openChart isExcludedLayer_iff
        GetLayerByName_def)
  from excluded_layers_and_getAllFeatures [of "''Edge''" topology_chart]
  have "getLayerFeatures topology_chart ''Edge'' = []"
    and "getAllFeatures topology_chart =
       concat (map (getLayerFeatures topology_chart)
         (filter (\<lambda>n. n \<notin> {''DSID'', ''IsolatedNode'', ''ConnectedNode'', ''Edge'', ''Face''})
            (getLayerNames topology_chart)))"
    by simp_all
  with names buoy show ?thesis by simp
qed










section \<open>Properties of the database operations\<close>

lemma escapeQuotes_loop_eq:
  "escapeQuotes_loop r escaped = escaped @ doubleQuotes_spec r"
  by (induction r arbitrary: escaped) (simp_all add: doubleQuotes_spec_def)

lemma lnamRefsToArrayLiteral_loop_eq:
  "lnamRefsToArrayLiteral_loop refs first ss =
     ss @ (if refs = [] \<or> first then [] else '','')
        @ commaSeparated (map (\<lambda>r. [CHR 0x27] @ doubleQuotes_spec r @ [CHR 0x27]) refs)"
proof (induction refs arbitrary: first ss)
  case Nil
  then show ?case by simp
next
  case (Cons r refs)
  let ?q = "\<lambda>r. [CHR 0x27] @ doubleQuotes_spec r @ [CHR 0x27]"
  have "lnamRefsToArrayLiteral_loop (r # refs) first ss =
      lnamRefsToArrayLiteral_loop refs False (ss @ (if \<not> first then '','' else []) @ ?q r)"
    by (simp add: escapeQuotes_loop_eq)
  also have "\<dots> = (ss @ (if \<not> first then '','' else []) @ ?q r)
      @ (if refs = [] \<or> False then [] else '','') @ commaSeparated (map ?q refs)"
    by (rule Cons.IH)
  also have "\<dots> = ss @ (if r # refs = [] \<or> first then [] else '','')
      @ commaSeparated (map ?q (r # refs))"
    by (cases refs) simp_all
  finally show ?case .
qed

lemma lnamRefsToArrayLiteral_eq:
  "refs \<noteq> [] \<Longrightarrow> lnamRefsToArrayLiteral refs = arrayLiteral_spec refs"
  by (simp add: lnamRefsToArrayLiteral_def lnamRefsToArrayLiteral_loop_eq arrayLiteral_spec_def)

lemma scanArray_constant:
  "scanArray InConstant cur acc (doubleQuotes_spec r @ CHR 0x27 # rest) =
     scanArray AfterQuote (cur @ r) acc rest"
  by (induction r arbitrary: cur) (simp_all add: doubleQuotes_spec_def)

lemma scanArray_elements:
  "refs \<noteq> [] \<Longrightarrow>
   scanArray ExpectConstant cur acc
     (commaSeparated (map (\<lambda>r. [CHR 0x27] @ doubleQuotes_spec r @ [CHR 0x27]) refs)
        @ '']::varchar[]'') = Some (acc @ refs)"
proof (induction refs arbitrary: cur acc)
  case Nil
  then show ?case by simp
next
  case (Cons r refs)
  show ?case
  proof (cases refs)
    case Nil
    then show ?thesis by (simp add: scanArray_constant)
  next
    case (Cons r' refs')
    with Cons.IH [of "[]" "acc @ [r]"] show ?thesis
      by (simp add: scanArray_constant)
  qed
qed

lemma readArrayLiteral_lnamRefsToArrayLiteral:
  "readArrayLiteral (lnamRefsToArrayLiteral refs) =
     Some (if refs = [] then SQL_NULL else SQL_ARRAY refs)"
proof (cases "refs = []")
  case True
  then show ?thesis
    by (simp add: lnamRefsToArrayLiteral_def readArrayLiteral_def)
next
  case False
  with scanArray_elements [of refs "[]" "[]"] show ?thesis
    by (simp add: lnamRefsToArrayLiteral_eq arrayLiteral_spec_def readArrayLiteral_def)
qed

lemma find_Some_filter: "find P xs = Some x \<Longrightarrow> \<exists>rest. filter P xs = x # rest"
  by (induction xs) (auto split: if_splits)

text \<open>
  Claim C5. An empty reference list is encoded as \<open>NULL\<close>; a non-empty one as the array
  expression in which every quote character of every element is doubled, and reading the
  expression back gives the original elements; so for the list \<open>A'B\<close>, \<open>C\<close>.
\<close>

theorem lnamRefsToArrayLiteral_roundtrip:
  "lnamRefsToArrayLiteral [] = ''NULL''
   \<and> readArrayLiteral (lnamRefsToArrayLiteral []) = Some SQL_NULL
   \<and> (refs \<noteq> [] \<longrightarrow>
        lnamRefsToArrayLiteral refs = arrayLiteral_spec refs
        \<and> readArrayLiteral (lnamRefsToArrayLiteral refs) = Some (SQL_ARRAY refs))
   \<and> lnamRefsToArrayLiteral [''A'' @ [CHR 0x27] @ ''B'', ''C'']
        = ''ARRAY['' @ [CHR 0x27] @ ''A'' @ [CHR 0x27, CHR 0x27] @ ''B'' @ [CHR 0x27] @ '',''
            @ [CHR 0x27] @ ''C'' @ [CHR 0x27] @ '']::varchar[]''"
proof (intro conjI impI)
  show "lnamRefsToArrayLiteral [] = ''NULL''"
    by (simp add: lnamRefsToArrayLiteral_def)
  show "readArrayLiteral (lnamRefsToArrayLiteral []) = Some SQL_NULL"
    by (simp add: readArrayLiteral_lnamRefsToArrayLiteral)
  show "lnamRefsToArrayLiteral [''A'' @ [CHR 0x27] @ ''B'', ''C'']
        = ''ARRAY['' @ [CHR 0x27] @ ''A'' @ [CHR 0x27, CHR 0x27] @ ''B'' @ [CHR 0x27] @ '',''
            @ [CHR 0x27] @ ''C'' @ [CHR 0x27] @ '']::varchar[]''"
    by (simp add: lnamRefsToArrayLiteral_def)
next
  assume "refs \<noteq> []"
  then show "lnamRefsToArrayLiteral refs = arrayLiteral_spec refs"
    by (rule lnamRefsToArrayLiteral_eq)
next
  assume "refs \<noteq> []"
  then show "readArrayLiteral (lnamRefsToArrayLiteral refs) = Some (SQL_ARRAY refs)"
    by (simp add: readArrayLiteral_lnamRefsToArrayLiteral)
qed

theorem lnamRefsToArrayLiteral_roundtrip_witness:
  "[''A'' @ [CHR 0x27] @ ''B'', ''C''] \<noteq> []
   \<and> readArrayLiteral
        (''ARRAY['' @ [CHR 0x27] @ ''A'' @ [CHR 0x27, CHR 0x27] @ ''B'' @ [CHR 0x27] @ '',''
            @ [CHR 0x27] @ ''C'' @ [CHR 0x27] @ '']::varchar[]'')
       = Some (SQL_ARRAY [''A'' @ [CHR 0x27] @ ''B'', ''C''])"
proof -
  have ne: "[''A'' @ [CHR 0x27] @ ''B'', ''C''] \<noteq> []"
    by simp
  from lnamRefsToArrayLiteral_roundtrip [of "[''A'' @ [CHR 0x27] @ ''B'', ''C'']"] ne
  have "readArrayLiteral (lnamRefsToArrayLiteral [''A'' @ [CHR 0x27] @ ''B'', ''C''])
          = Some (SQL_ARRAY [''A'' @ [CHR 0x27] @ ''B'', ''C''])"
    and "lnamRefsToArrayLiteral [''A'' @ [CHR 0x27] @ ''B'', ''C'']
        = ''ARRAY['' @ [CHR 0x27] @ ''A'' @ [CHR 0x27, CHR 0x27] @ ''B'' @ [CHR 0x27] @ '',''
            @ [CHR 0x27] @ ''C'' @ [CHR 0x27] @ '']::varchar[]''"
    by blast+
  with ne show ?thesis by (simp only:) simp
qed

text \<open>
  Claim C8. On a store that has no chart of the given name, \<open>deleteChart\<close> returns true
  and changes nothing but the count of transactions: the tables, and so the chart and
  feature counts, are as before. On a store that has such a chart, with identifier
  \<open>chartId\<close>, it returns true, and the feature rows that refer to \<open>chartId\<close> and the
  chart row are gone.
\<close>

theorem deleteChart_absent_and_present:
  "(conn_Database db = Some pg \<and> nm \<notin> set (map (\<lambda>(i, c). name c) (charts_table pg))
      \<longrightarrow> deleteChart nm db = (True, db\<lparr>conn_Database := Some (open_work pg)\<rparr>)
          \<and> charts_table (open_work pg) = charts_table pg
          \<and> features_table (open_work pg) = features_table pg
          \<and> fst (getChartCount (snd (deleteChart nm db))) = fst (getChartCount db)
          \<and> fst (getFeatureCount (snd (deleteChart nm db))) = fst (getFeatureCount db))
   \<and> (conn_Database db = Some pg
        \<and> find (\<lambda>(i, c). name c = nm) (charts_table pg) = Some (chartId, chart)
      \<longrightarrow> fst (deleteChart nm db)
          \<and> (\<exists>pg'. conn_Database (snd (deleteChart nm db)) = Some pg'
                \<and> features_table pg' =
                    filter (\<lambda>r. row_chart_id r \<noteq> chartId) (features_table pg)
                \<and> charts_table pg' = filter (\<lambda>(i, c). i \<noteq> chartId) (charts_table pg)))"
proof (intro conjI impI)
  assume a: "conn_Database db = Some pg \<and> nm \<notin> set (map (\<lambda>(i, c). name c) (charts_table pg))"
  then have "filter (\<lambda>(i, c). name c = nm) (charts_table pg) = []"
    by (auto simp: filter_empty_conv)
  with a show del: "deleteChart nm db = (True, db\<lparr>conn_Database := Some (open_work pg)\<rparr>)"
    by (simp add: deleteChart_def open_work_def)
  show "charts_table (open_work pg) = charts_table pg"
    and "features_table (open_work pg) = features_table pg"
    by (simp_all add: open_work_def)
  from a show "fst (getChartCount (snd (deleteChart nm db))) = fst (getChartCount db)"
    by (simp add: del getChartCount_def open_work_def)
  from a show "fst (getFeatureCount (snd (deleteChart nm db))) = fst (getFeatureCount db)"
    by (simp add: del getFeatureCount_def open_work_def)
next
  assume a: "conn_Database db = Some pg
        \<and> find (\<lambda>(i, c). name c = nm) (charts_table pg) = Some (chartId, chart)"
  then obtain rest where
    "filter (\<lambda>(i, c). name c = nm) (charts_table pg) = (chartId, chart) # rest"
    using find_Some_filter [of "\<lambda>(i, c). name c = nm" "charts_table pg" "(chartId, chart)"]
    by blast
  with a show "fst (deleteChart nm db)"
    and "\<exists>pg'. conn_Database (snd (deleteChart nm db)) = Some pg'
                \<and> features_table pg' =
                    filter (\<lambda>r. row_chart_id r \<noteq> chartId) (features_table pg)
                \<and> charts_table pg' = filter (\<lambda>(i, c). i \<noteq> chartId) (charts_table pg)"
    by (simp_all add: deleteChart_def open_work_def Let_def)
qed

theorem deleteChart_absent_and_present_witness:
  "deleteChart ''GB5X01NE'' stocked_db
     = (True, stocked_db\<lparr>conn_Database := Some (open_work stocked_server)\<rparr>)
   \<and> fst (getChartCount stocked_db) = 1
   \<and> fst (getChartCount (snd (deleteChart ''GB5X01NE'' stocked_db))) = 1
   \<and> fst (getFeatureCount stocked_db) = 2
   \<and> fst (getFeatureCount (snd (deleteChart ''GB5X01NE'' stocked_db))) = 2
   \<and> fst (deleteChart ''US5TX51M.000'' stocked_db)
   \<and> map_option charts_table (conn_Database (snd (deleteChart ''US5TX51M.000'' stocked_db)))
        = Some []
   \<and> map_option features_table (conn_Database (snd (deleteChart ''US5TX51M.000'' stocked_db)))
        = Some []"
proof -
  have conn: "conn_Database stocked_db = Some stocked_server"
    by (simp add: stocked_db_def)
  have absent: "''GB5X01NE'' \<notin> set (map (\<lambda>(i, c). name c) (charts_table stocked_server))"
    by (simp add: stocked_server_def)
  have present: "find (\<lambda>(i, c). name c = ''US5TX51M.000'') (charts_table stocked_server)
      = Some (1, ChartInfo_default\<lparr>name := ''US5TX51M.000''\<rparr>)"
    by (simp add: stocked_server_def)
  have counts: "fst (getChartCount stocked_db) = 1" "fst (getFeatureCount stocked_db) = 2"
    by (simp_all add: getChartCount_def getFeatureCount_def stocked_db_def stocked_server_def)
  from deleteChart_absent_and_present [of stocked_db stocked_server "''GB5X01NE''"] conn absent
  have a: "deleteChart ''GB5X01NE'' stocked_db
        = (True, stocked_db\<lparr>conn_Database := Some (open_work stocked_server)\<rparr>)"
    and b: "fst (getChartCount (snd (deleteChart ''GB5X01NE'' stocked_db)))
        = fst (getChartCount stocked_db)"
    and c: "fst (getFeatureCount (snd (deleteChart ''GB5X01NE'' stocked_db)))
        = fst (getFeatureCount stocked_db)"
    by blast+
  from deleteChart_absent_and_present
    [of stocked_db stocked_server "''US5TX51M.000''" 1 "ChartInfo_default\<lparr>name := ''US5TX51M.000''\<rparr>"]
    conn present
  have d: "fst (deleteChart ''US5TX51M.000'' stocked_db)"
    and "\<exists>pg'. conn_Database (snd (deleteChart ''US5TX51M.000'' stocked_db)) = Some pg'
        \<and> features_table pg' =
            filter (\<lambda>r. row_chart_id r \<noteq> 1) (features_table stocked_server)
        \<and> charts_table pg' = filter (\<lambda>(i, c). i \<noteq> 1) (charts_table stocked_server)"
    by blast+
  then obtain pg' where
    "conn_Database (snd (deleteChart ''US5TX51M.000'' stocked_db)) = Some pg'"
    "features_table pg' = filter (\<lambda>r. row_chart_id r \<noteq> 1) (features_table stocked_server)"
    "charts_table pg' = filter (\<lambda>(i, c). i \<noteq> 1) (charts_table stocked_server)"
    by blast
  then have e:
    "map_option charts_table (conn_Database (snd (deleteChart ''US5TX51M.000'' stocked_db))) = Some []"
    "map_option features_table (conn_Database (snd (deleteChart ''US5TX51M.000'' stocked_db))) = Some []"
    by (simp_all add: stocked_server_def)
  from a b c d e counts show ?thesis
    by (simp only:)
qed

text \<open>
  Claim C9. On a connected database \<open>insertFeatures\<close> with an empty batch returns true and
  leaves the database as it was: no transaction is opened, so no statement is executed, and
  no row is inserted.
\<close>

theorem insertFeatures_empty_batch:
  "isConnected db \<longrightarrow> insertFeatures chartId [] db = (True, db)"
  by (auto simp: isConnected_def insertFeatures_def)

theorem insertFeatures_empty_batch_witness:
  "isConnected stocked_db \<and> insertFeatures 1 [] stocked_db = (True, stocked_db)"
proof -
  have "isConnected stocked_db"
    by (simp add: isConnected_def stocked_db_def)
  with insertFeatures_empty_batch [of stocked_db 1] show ?thesis
    by blast
qed

section \<open>The sounding rule\<close>

lemma map_of_map_assign: "map_of (map_assign k v m) = (map_of m)(k \<mapsto> v)"
  by (induction m) (auto simp: fun_upd_twist)

lemma round_half_even_close: "\<bar>of_int (round_half_even x) - x\<bar> \<le> 1 / 2"
proof -
  have "of_int \<lfloor>x\<rfloor> \<le> x" and "x < of_int \<lfloor>x\<rfloor> + 1"
    by linarith+
  then show ?thesis
    by (auto simp: round_half_even_def Let_def)
qed

lemma round_half_even_nonneg: "0 \<le> x \<Longrightarrow> 0 \<le> round_half_even x"
  by (auto simp: round_half_even_def Let_def)

lemma digits10_less_10: "n < 10 \<Longrightarrow> digits10 n = [''0123456789'' ! n]"
  by (simp add: digits10.simps)

lemma digit_char_isdigit:
  assumes "n < 10"
  shows "isdigit (''0123456789'' ! n)"
proof -
  from assms have "n \<in> {0, 1, 2, 3, 4, 5, 6, 7, 8, 9}" by auto
  then show ?thesis by (auto simp: isdigit_def)
qed

lemma digits10_isdigit: "list_all isdigit (digits10 n)"
proof (induction n rule: digits10.induct)
  case (1 n)
  show ?case
  proof (cases "n < 10")
    case True
    then show ?thesis by (simp add: digits10_less_10 digit_char_isdigit)
  next
    case False
    with 1 have "list_all isdigit (digits10 (n div 10))" by simp
    with False show ?thesis
      by (subst digits10.simps) (simp add: digit_char_isdigit)
  qed
qed

lemma fixed1_shape:
  "\<exists>n. \<bar>of_nat n / 10 - magnitude m e\<bar> \<le> 1 / 20
       \<and> fixed1 (Finite neg m e) = (if neg then ''-'' else []) @ digits10 (n div 10) @ ''.''
            @ [''0123456789'' ! (n mod 10)]"
proof -
  define n where "n = nat (round_half_even (magnitude m e * 10))"
  have "0 \<le> magnitude m e"
    by (simp add: magnitude_def)
  then have "0 \<le> round_half_even (magnitude m e * 10)"
    by (intro round_half_even_nonneg) simp
  then have "(of_nat n :: rat) = of_int (round_half_even (magnitude m e * 10))"
    by (simp add: n_def)
  with round_half_even_close [of "magnitude m e * 10"]
  have "\<bar>of_nat n - magnitude m e * 10\<bar> \<le> 1 / 2"
    by simp
  then have close: "\<bar>of_nat n / 10 - magnitude m e\<bar> \<le> 1 / 20"
    by (simp add: field_simps abs_le_iff)
  have "fixed1 (Finite neg m e) = (if neg then ''-'' else []) @ digits10 (n div 10) @ ''.''
            @ [''0123456789'' ! (n mod 10)]"
    by (simp add: fixed1.simps n_def Let_def digits10_less_10)
  with close show ?thesis by blast
qed

text \<open>
  Claim C7, as amended. For the layer name \<open>SOUNDG\<close> and a record whose geometry is a
  point with a third coordinate, the property map that is serialised is the extracted one
  with \<open>METERS\<close> set to the Z value as the stream prints it in fixed notation with
  precision 1: for a finite value the sign, digits, a point and one digit, within one
  twentieth of the magnitude; \<open>inf\<close> or \<open>nan\<close> after the sign otherwise. For any other
  layer name, for a geometry that is not a point or has no third coordinate, and for a record
  without geometry, the property map is the extracted one. The \<open>propsJson\<close> of every
  feature is the serialisation of that property map.
\<close>

theorem soundg_meters_rule:
  "(layerName = ''SOUNDG'' \<and> GetGeometryRef r = Some g \<and> flatGeometryType g = wkbPoint
      \<and> Is3D g
      \<longrightarrow> (\<forall>k. map_find (featureProperties layerName r) k =
                 (if k = ''METERS'' then Some (fixed1 (getZ g))
                  else map_find (extractProperties (Some r)) k)))
   \<and> (layerName \<noteq> ''SOUNDG'' \<longrightarrow> featureProperties layerName r = extractProperties (Some r))
   \<and> (GetGeometryRef r = Some g \<and> (flatGeometryType g \<noteq> wkbPoint \<or> \<not> Is3D g)
      \<longrightarrow> featureProperties layerName r = extractProperties (Some r))
   \<and> (GetGeometryRef r = None \<longrightarrow> featureProperties layerName r = extractProperties (Some r))
   \<and> (\<exists>n. \<bar>of_nat n / 10 - magnitude m e\<bar> \<le> 1 / 20
          \<and> list_all isdigit (digits10 (n div 10)) \<and> isdigit (''0123456789'' ! (n mod 10))
          \<and> fixed1 (Finite neg m e) = (if neg then ''-'' else []) @ digits10 (n div 10) @ ''.''
               @ [''0123456789'' ! (n mod 10)])
   \<and> fixed1 (Infinite neg) = (if neg then ''-inf'' else ''inf'')
   \<and> fixed1 (NaN neg) = (if neg then ''-nan'' else ''nan'')
   \<and> (isOpen s \<and> \<not> isExcludedLayer layerName \<and> dataset_S57 s = Some ds
        \<and> GetLayerByName ds layerName = Some l
      \<longrightarrow> map propsJson (getLayerFeatures s layerName) =
            map (\<lambda>r. toJsonObject (featureProperties layerName r)) (records l))"
proof (intro conjI impI allI)
  fix k
  assume "layerName = ''SOUNDG'' \<and> GetGeometryRef r = Some g \<and> flatGeometryType g = wkbPoint
      \<and> Is3D g"
  then show "map_find (featureProperties layerName r) k =
      (if k = ''METERS'' then Some (fixed1 (getZ g)) else map_find (extractProperties (Some r)) k)"
    by (simp add: featureProperties_def Let_def map_find_def map_of_map_assign)
next
  assume "layerName \<noteq> ''SOUNDG''"
  then show "featureProperties layerName r = extractProperties (Some r)"
    by (simp add: featureProperties_def Let_def)
next
  assume "GetGeometryRef r = Some g \<and> (flatGeometryType g \<noteq> wkbPoint \<or> \<not> Is3D g)"
  then show "featureProperties layerName r = extractProperties (Some r)"
    by (auto simp: featureProperties_def Let_def)
next
  assume "GetGeometryRef r = None"
  then show "featureProperties layerName r = extractProperties (Some r)"
    by (simp add: featureProperties_def Let_def)
next
  from fixed1_shape [of m e neg] obtain n where
    "\<bar>of_nat n / 10 - magnitude m e\<bar> \<le> 1 / 20"
    "fixed1 (Finite neg m e) = (if neg then ''-'' else []) @ digits10 (n div 10) @ ''.''
               @ [''0123456789'' ! (n mod 10)]"
    by blast
  moreover have "list_all isdigit (digits10 (n div 10))"
    by (rule digits10_isdigit)
  moreover have "isdigit (''0123456789'' ! (n mod 10))"
    by (rule digit_char_isdigit) simp
  ultimately show "\<exists>n. \<bar>of_nat n / 10 - magnitude m e\<bar> \<le> 1 / 20
          \<and> list_all isdigit (digits10 (n div 10)) \<and> isdigit (''0123456789'' ! (n mod 10))
          \<and> fixed1 (Finite neg m e) = (if neg then ''-'' else []) @ digits10 (n div 10) @ ''.''
               @ [''0123456789'' ! (n mod 10)]"
    by blast
next
  show "fixed1 (Infinite neg) = (if neg then ''-inf'' else ''inf'')"
    by (simp add: fixed1.simps)
  show "fixed1 (NaN neg) = (if neg then ''-nan'' else ''nan'')"
    by (simp add: fixed1.simps)
next
  assume "isOpen s \<and> \<not> isExcludedLayer layerName \<and> dataset_S57 s = Some ds
        \<and> GetLayerByName ds layerName = Some l"
  then show "map propsJson (getLayerFeatures s layerName) =
            map (\<lambda>r. toJsonObject (featureProperties layerName r)) (records l)"
    by (simp add: getLayerFeatures_def makeFeature_propsJson)
qed

theorem soundg_meters_rule_witness:
  "map_find (featureProperties ''SOUNDG'' sounding_point) ''METERS'' = Some ''12.4''
   \<and> map_find (featureProperties ''SOUNDG'' sounding_point) ''SCAMIN'' = Some ''50000''
   \<and> featureProperties ''DEPARE'' sounding_point = [(''SCAMIN'', ''50000'')]
   \<and> featureProperties ''SOUNDG'' sounding_multipoint = []
   \<and> fixed1 (Finite True 0 0) = ''-0.0''
   \<and> fixed1 (Finite False 0 0) = ''0.0''
   \<and> map propsJson (getLayerFeatures sounding_chart ''SOUNDG'')
        = [toJsonObject [(''METERS'', ''12.4''), (''SCAMIN'', ''50000'')], ''{}'']"
proof -
  let ?g = sounding_point_geometry
  let ?m = sounding_multipoint_geometry
  let ?l = "\<lparr>GetName = ''SOUNDG'', records = [sounding_point, sounding_multipoint]\<rparr>"
  have point: "''SOUNDG'' = ''SOUNDG'' \<and> GetGeometryRef sounding_point = Some ?g
      \<and> flatGeometryType ?g = wkbPoint \<and> Is3D ?g"
    by (simp add: sounding_point_def sounding_point_geometry_def)
  have multi: "GetGeometryRef sounding_multipoint = Some ?m
      \<and> (flatGeometryType ?m \<noteq> wkbPoint \<or> \<not> Is3D ?m)"
    by (simp add: sounding_multipoint_def sounding_multipoint_geometry_def)
  have chart: "isOpen sounding_chart \<and> \<not> isExcludedLayer ''SOUNDG''
      \<and> dataset_S57 sounding_chart = Some \<lparr>layers = [?l]\<rparr>
      \<and> GetLayerByName \<lparr>layers = [?l]\<rparr> ''SOUNDG'' = Some ?l"
    by (simp add: sounding_chart_def openChart_def isOpen_def isExcludedLayer_iff
        GetLayerByName_def)
  from soundg_meters_rule [of "''SOUNDG''" sounding_point ?g] point
  have a: "\<forall>k. map_find (featureProperties ''SOUNDG'' sounding_point) k =
      (if k = ''METERS'' then Some (fixed1 (getZ ?g))
       else map_find (extractProperties (Some sounding_point)) k)"
    by blast
  from a have a1: "map_find (featureProperties ''SOUNDG'' sounding_point) ''METERS'' = Some ''12.4''"
    by (simp add: fixed1_sounding sounding_point_geometry_def)
  from a have a2: "map_find (featureProperties ''SOUNDG'' sounding_point) ''SCAMIN'' = Some ''50000''"
    by (simp add: sounding_point_extracted map_find_def)
  from soundg_meters_rule [of "''DEPARE''" sounding_point]
  have b: "featureProperties ''DEPARE'' sounding_point = [(''SCAMIN'', ''50000'')]"
    by (simp add: sounding_point_extracted)
  from soundg_meters_rule [of "''SOUNDG''" sounding_multipoint ?m] multi
  have "featureProperties ''SOUNDG'' sounding_multipoint
      = extractProperties (Some sounding_multipoint)"
    by blast
  then have c: "featureProperties ''SOUNDG'' sounding_multipoint = []"
    by (simp add: extractProperties_def sounding_multipoint_def)
  from soundg_meters_rule
    [of "''SOUNDG''" sounding_point ?g 0 0 False sounding_chart "\<lparr>layers = [?l]\<rparr>" ?l] chart
  have "map propsJson (getLayerFeatures sounding_chart ''SOUNDG'') =
      map (\<lambda>r. toJsonObject (featureProperties ''SOUNDG'' r)) (records ?l)"
    by blast
  then have d: "map propsJson (getLayerFeatures sounding_chart ''SOUNDG'')
        = [toJsonObject [(''METERS'', ''12.4''), (''SCAMIN'', ''50000'')], ''{}'']"
    by (simp add: sounding_point_properties c toJsonObject_def)
  have z: "fixed1 (Finite True 0 0) = ''-0.0''" "fixed1 (Finite False 0 0) = ''0.0''"
    by code_simp+
  from a1 a2 b c d z show ?thesis
    by (simp only:)
qed

text \<open>
  Claim C7 as stated fails for a geometry that has a third coordinate and is not a point:
  the multipoint sounding of layer \<open>SOUNDG\<close> gets no \<open>METERS\<close>. It fails again for
  a point whose third coordinate is not finite: \<open>METERS\<close> is then \<open>inf\<close>, a text
  without decimal place.
\<close>

theorem soundg_multipoint_counterexample:
  "map_option Is3D (GetGeometryRef sounding_multipoint) = Some True
   \<and> map_find (featureProperties ''SOUNDG'' sounding_multipoint) ''METERS'' = None
   \<and> map propsJson (getLayerFeatures sounding_chart ''SOUNDG'') ! 1 = ''{}''
   \<and> map_option Is3D (GetGeometryRef sounding_unbounded) = Some True
   \<and> map_option flatGeometryType (GetGeometryRef sounding_unbounded) = Some wkbPoint
   \<and> map_find (featureProperties ''SOUNDG'' sounding_unbounded) ''METERS'' = Some ''inf''"
proof -
  have "map_find (featureProperties ''SOUNDG'' sounding_multipoint) ''METERS'' = None"
    and "map propsJson (getLayerFeatures sounding_chart ''SOUNDG'') ! 1 = ''{}''"
    by (simp_all add: sounding_features makeFeature_propsJson sounding_multipoint_properties
        map_find_def toJsonObject_def)
  moreover have "map_option Is3D (GetGeometryRef sounding_multipoint) = Some True"
    by (simp add: sounding_multipoint_def sounding_multipoint_geometry_def)
  moreover have "map_option Is3D (GetGeometryRef sounding_unbounded) = Some True"
    and "map_option flatGeometryType (GetGeometryRef sounding_unbounded) = Some wkbPoint"
    and "map_find (featureProperties ''SOUNDG'' sounding_unbounded) ''METERS'' = Some ''inf''"
    by (simp_all add: sounding_unbounded_def featureProperties_def extractProperties_def
        Let_def map_find_def fixed1.simps)
  ultimately show ?thesis
    by (simp only:)
qed

section \<open>Properties of the ingestion\<close>

lemma exec_insert_feature_eq:
  "exec_insert_feature pg chartId f =
     (if feature_accepted pg chartId f
      then Some (pg\<lparr>features_table := features_table pg @ [feature_row chartId f]\<rparr>)
      else None)"
  by (simp add: feature_accepted_def exec_insert_feature_def feature_row_def
      readArrayLiteral_lnamRefsToArrayLiteral)

lemma feature_accepted_iff:
  "feature_accepted pg chartId f \<longleftrightarrow>
     ST_GeomFromGeoJSON_ok pg (geomGeoJson f) \<and> jsonb_ok pg (propsJson f)
     \<and> chartId \<in> set (map fst (charts_table pg)) \<and> minZ f \<le> maxZ f"
  by (simp add: feature_accepted_def exec_insert_feature_def
      readArrayLiteral_lnamRefsToArrayLiteral)

lemma feature_accepted_features_table [simp]:
  "feature_accepted (pg\<lparr>features_table := rows\<rparr>) = feature_accepted pg"
  by (simp add: feature_accepted_iff fun_eq_iff)

lemma feature_accepted_work_count [simp]:
  "feature_accepted (pg\<lparr>work_count := n\<rparr>) = feature_accepted pg"
  by (simp add: feature_accepted_iff fun_eq_iff)

lemma feature_accepted_open_work [simp]:
  "feature_accepted (open_work pg) = feature_accepted pg"
  by (simp add: open_work_def)

lemma open_work_tables [simp]:
  "features_table (open_work pg) = features_table pg"
  "charts_table (open_work pg) = charts_table pg"
  by (simp_all add: open_work_def)

lemma insertFeatures_loop_eq:
  "insertFeatures_loop pg chartId fs =
     (if list_all (feature_accepted pg chartId) fs
      then Some (pg\<lparr>features_table := features_table pg @ map (feature_row chartId) fs\<rparr>)
      else None)"
  by (induction fs arbitrary: pg) (simp_all add: exec_insert_feature_eq)

lemma insertFeatures_eq:
  assumes "conn_Database db = Some pg"
  shows "insertFeatures chartId batch db =
     (if batch = [] then (True, db)
      else if list_all (feature_accepted pg chartId) batch
      then (True, db\<lparr>conn_Database := Some ((open_work pg)
              \<lparr>features_table := features_table pg @ map (feature_row chartId) batch\<rparr>)\<rparr>)
      else (False, db\<lparr>conn_Database := Some (open_work pg)\<rparr>))"
  using assms by (simp add: insertFeatures_def insertFeatures_loop_eq Let_def)

lemma batchSize_pos: "0 < batchSize"
  by (simp add: batchSize_def)

lemma batches_from_done: "length fs \<le> i \<Longrightarrow> batches_from i fs = []"
  by (simp add: batches_from.simps)

lemma batches_from_step:
  "i < length fs \<Longrightarrow>
   batches_from i fs =
     take (min (i + batchSize) (length fs) - i) (drop i fs) # batches_from (i + batchSize) fs"
  by (subst batches_from.simps) simp

lemma batch_take:
  "take (min (i + batchSize) (length fs) - i) (drop i fs) = take batchSize (drop i fs)"
proof (cases "i + batchSize \<le> length fs")
  case True
  then show ?thesis by (simp add: min_def)
next
  case False
  then have "length (drop i fs) \<le> batchSize" and "length (drop i fs) \<le> length fs - i"
    by simp_all
  with False show ?thesis by (simp add: min_def)
qed

lemma concat_batches_from: "concat (batches_from i fs) = drop i fs"
proof (induction i fs rule: batches_from.induct)
  case (1 i fs)
  show ?case
  proof (cases "i < length fs")
    case True
    have "drop (i + batchSize) fs = drop batchSize (drop i fs)"
      by (simp add: add.commute)
    with True 1 show ?thesis
      by (simp only: batches_from_step batch_take concat.simps append_take_drop_id)
  next
    case False
    then show ?thesis by (simp add: batches_from_done)
  qed
qed

lemma div_step:
  fixes n B :: nat
  assumes "0 < B" and "0 < n"
  shows "(n + (B - 1)) div B = Suc ((n - B + (B - 1)) div B)"
proof -
  have step: "(m + B) div B = Suc (m div B)" for m
    using assms(1) by simp
  show ?thesis
  proof (cases "B \<le> n")
    case True
    with assms have eq: "n + (B - 1) = (n - B + (B - 1)) + B"
      by arith
    show ?thesis
      unfolding eq by (rule step)
  next
    case False
    with assms have eq: "n + (B - 1) = (n - 1) + B"
      by arith
    from False assms have "(n - 1) div B = 0" and "(n - B + (B - 1)) div B = 0"
      by simp_all
    then show ?thesis
      unfolding eq by (simp only: step)
  qed
qed

lemma length_batches_from:
  "length (batches_from i fs) = (length fs - i + (batchSize - 1)) div batchSize"
proof (induction i fs rule: batches_from.induct)
  case (1 i fs)
  show ?case
  proof (cases "i < length fs")
    case True
    with 1 have "length (batches_from (i + batchSize) fs)
        = (length fs - (i + batchSize) + (batchSize - 1)) div batchSize"
      by simp
    moreover have "length fs - (i + batchSize) = length fs - i - batchSize"
      by simp
    moreover have "(length fs - i + (batchSize - 1)) div batchSize
        = Suc ((length fs - i - batchSize + (batchSize - 1)) div batchSize)"
      using True by (intro div_step batchSize_pos) simp
    ultimately show ?thesis
      using True by (simp only: batches_from_step list.size)
  next
    case False
    then show ?thesis by (simp add: batches_from_done batchSize_pos)
  qed
qed

lemma batches_from_sizes:
  "b \<in> set (batches_from i fs) \<Longrightarrow> b \<noteq> [] \<and> length b \<le> batchSize"
proof (induction i fs rule: batches_from.induct)
  case (1 i fs)
  show ?case
  proof (cases "i < length fs")
    case True
    have "take batchSize (drop i fs) \<noteq> []"
      using True batchSize_pos by simp
    with True 1 show ?thesis
      by (auto simp: batches_from_step batch_take)
  next
    case False
    with 1 show ?thesis by (simp add: batches_from_done)
  qed
qed

lemma processFile_loop_eq:
  "conn_Database db = Some pg \<Longrightarrow>
   processFile_loop i fs chartId db =
     (let bs = batches_from i fs;
          good = takeWhile (list_all (feature_accepted pg chartId)) bs
      in (length good = length bs,
          db\<lparr>conn_Database := Some (pg
            \<lparr>features_table := features_table pg @ map (feature_row chartId) (concat good),
             work_count := work_count pg
               + (if length good = length bs then length bs else length good + 1)\<rparr>)\<rparr>))"
proof (induction i fs chartId db arbitrary: pg rule: processFile_loop.induct)
  case (1 i fs chartId db)
  show ?case
  proof (cases "i < length fs")
    case False
    with 1(2) show ?thesis
      by (subst processFile_loop.simps) (simp add: batches_from_done)
  next
    case True
    let ?b = "take (min (i + batchSize) (length fs) - i) (drop i fs)"
    have ne: "?b \<noteq> []"
      using True batchSize_pos by (simp add: batch_take)
    have bs: "batches_from i fs = ?b # batches_from (i + batchSize) fs"
      using True by (rule batches_from_step)
    show ?thesis
    proof (cases "list_all (feature_accepted pg chartId) ?b")
      case False
      then have "insertFeatures chartId ?b db = (False, db\<lparr>conn_Database := Some (open_work pg)\<rparr>)"
        using 1(2) ne by (simp add: insertFeatures_eq)
      then have "processFile_loop i fs chartId db
          = (False, db\<lparr>conn_Database := Some (open_work pg)\<rparr>)"
        using True by (subst processFile_loop.simps) (simp add: Let_def)
      with False show ?thesis
        by (simp add: bs open_work_def)
    next
      case acc: True
      let ?pg' = "(open_work pg)
          \<lparr>features_table := features_table pg @ map (feature_row chartId) ?b\<rparr>"
      let ?db' = "db\<lparr>conn_Database := Some ?pg'\<rparr>"
      have ins: "insertFeatures chartId ?b db = (True, ?db')"
        using 1(2) ne acc by (simp add: insertFeatures_eq)
      have conn': "conn_Database ?db' = Some ?pg'"
        by simp
      have "processFile_loop (i + batchSize) fs chartId ?db' =
        (let bs = batches_from (i + batchSize) fs;
             good = takeWhile (list_all (feature_accepted ?pg' chartId)) bs
         in (length good = length bs,
             ?db'\<lparr>conn_Database := Some (?pg'
               \<lparr>features_table := features_table ?pg' @ map (feature_row chartId) (concat good),
                work_count := work_count ?pg'
                  + (if length good = length bs then length bs else length good + 1)\<rparr>)\<rparr>))"
        using 1(1) [OF True refl refl refl, of ?pg'] ins by simp
      moreover have "processFile_loop i fs chartId db
          = processFile_loop (i + batchSize) fs chartId ?db'"
        using True ins by (subst processFile_loop.simps) (simp add: Let_def)
      ultimately show ?thesis
        using acc by (simp add: bs Let_def open_work_def)
    qed
  qed
qed

lemma processFile_features_stage:
  assumes "isOpen (S57_new GDALOpenEx filePath)"
    and "replaceChart (getChartInfo (S57_new GDALOpenEx filePath)) db = (Some chartId, db1)"
  shows "processFile GDALOpenEx filePath db =
     (let fs = getAllFeatures (S57_new GDALOpenEx filePath);
          r = processFile_loop 0 fs chartId db1;
          res = ProcessingResult_default
            \<lparr>resultFileName := path_filename filePath,
             chartName := name (getChartInfo (S57_new GDALOpenEx filePath)),
             featureCount := of_nat (length fs)\<rparr>
      in if \<not> fst r
         then (res\<lparr>success := False, errorMessage := ''Failed to insert features''\<rparr>, snd r)
         else (res\<lparr>success := True\<rparr>, snd r))"
  using assms by (simp add: processFile_def replaceChart_def Let_def)

lemma processFile_failure_message:
  assumes "errorMessage (fst (processFile GDALOpenEx filePath db)) = ''Failed to insert features''"
  shows "featureCount (fst (processFile GDALOpenEx filePath db))
      = of_nat (length (getAllFeatures (S57_new GDALOpenEx filePath)))"
  using assms
  by (auto simp: processFile_def Let_def ProcessingResult_default_def
      split: if_splits option.splits)

lemma length_concat_takeWhile_less:
  assumes "\<forall>b \<in> set bs. b \<noteq> []" and "length (takeWhile P bs) \<noteq> length bs"
  shows "length (concat (takeWhile P bs)) < length (concat bs)"
proof -
  have "dropWhile P bs \<noteq> []"
    using assms(2) by (metis takeWhile_eq_all_conv dropWhile_eq_Nil_conv)
  then obtain b rest where d: "dropWhile P bs = b # rest"
    by (cases "dropWhile P bs") auto
  then have "b \<in> set bs"
    by (metis list.set_intros(1) set_dropWhileD)
  with assms(1) have "b \<noteq> []" by blast
  have "concat bs = concat (takeWhile P bs) @ concat (dropWhile P bs)"
    by (metis concat_append takeWhile_dropWhile_id)
  with d \<open>b \<noteq> []\<close> show ?thesis by simp
qed

lemma ceiling_div_batch: "\<lceil>real n / 1000\<rceil> = int ((n + 999) div 1000)"
proof -
  have "\<lceil>real n / 1000\<rceil> = \<lceil>real_of_int (int n) / real_of_int 1000\<rceil>"
    by simp
  also have "\<dots> = - (- int n div 1000)"
    by (rule ceiling_divide_eq_div)
  also have "\<dots> = int ((n + 999) div 1000)"
    by (simp add: zdiv_int)
  finally show ?thesis .
qed

lemma sint_of_nat_small:
  assumes "n < 2 ^ 31"
  shows "sint (of_nat n :: cint) = int n"
proof -
  have "sint (of_nat n :: cint) = signed_take_bit 31 (int n)"
    by (simp add: signed_of_nat)
  also have "\<dots> = int n"
    using assms by (intro signed_take_bit_int_eq_self) simp_all
  finally show ?thesis .
qed

text \<open>The example file of 1001 features, evaluated.\<close>

lemma harbour_chart_eq:
  "harbour_chart =
     \<lparr>filePath_S57 = ''/charts/GB5X01NE.000'', dataset_S57 = Some \<lparr>layers = harbour_layers\<rparr>,
      initialized_S57 = True\<rparr>"
  by (simp add: harbour_chart_def S57_new_def harbour_files_def)

lemma harbour_isOpen: "isOpen harbour_chart"
  by (simp add: harbour_chart_eq isOpen_def)

lemma harbour_names: "getLayerNames harbour_chart = [''DSID'', ''M_COVR'', ''BOYLAT'', ''C_AGGR'']"
  by (simp add: getLayerNames_def harbour_isOpen) (simp add: harbour_chart_eq harbour_layers_def)

lemma harbour_layer_features:
  "getLayerFeatures harbour_chart n =
     (if isExcludedLayer n then []
      else case GetLayerByName \<lparr>layers = harbour_layers\<rparr> n of None \<Rightarrow> []
           | Some l \<Rightarrow> map (makeFeature n) (records l))"
  by (simp add: getLayerFeatures_def harbour_isOpen) (simp add: harbour_chart_eq)

lemma harbour_features:
  "getAllFeatures harbour_chart =
     makeFeature ''M_COVR'' coverage_record # replicate 999 (makeFeature ''BOYLAT'' buoy_record)
       @ [makeFeature ''C_AGGR'' aggregation_record]"
  by (simp add: getAllFeatures_def harbour_isOpen harbour_names harbour_layer_features
      isExcludedLayer_iff GetLayerByName_def harbour_layers_def)

lemma harbour_chartInfo:
  "name (getChartInfo harbour_chart) = ''GB5X01NE.000''"
  "covrGeoJson (getChartInfo harbour_chart) \<noteq> []"
  "covrGeoJson (getChartInfo harbour_chart) \<noteq> ''{}''"
  by (simp_all add: getChartInfo_def harbour_isOpen getDsidProperties_def
      firstFeatureProperties_def getCoverageGeoJson_def Let_def)
     (simp_all add: harbour_chart_eq harbour_layers_def GetLayerByName_def EQUAL_def fold_case_def
      extractProperties_def stringField_def map_find_def geometryToGeoJson_def
      coverage_record_def)

lemma harbour_replaceChart:
  "replaceChart (getChartInfo harbour_chart) stocked_db
     = (Some 2, \<lparr>conn_Database = Some harbour_server, inTransaction_Database = False\<rparr>)"
  by (simp add: replaceChart_def chartExists_def insertChart_def open_work_def stocked_db_def
      Let_def harbour_chartInfo harbour_server_def)
     (simp add: stocked_server_def harbour_chartInfo)

lemma harbour_accepted:
  "feature_accepted harbour_server 2 (makeFeature ''M_COVR'' coverage_record)"
  "feature_accepted harbour_server 2 (makeFeature ''BOYLAT'' buoy_record)"
  "\<not> feature_accepted harbour_server 2 (makeFeature ''C_AGGR'' aggregation_record)"
  using calculateZRange_bounds
  by (simp_all add: feature_accepted_iff makeFeature_range getScaleRange_def Let_def)
     (simp_all add: makeFeature_def Let_def harbour_server_def stocked_server_def
      geometryToGeoJson_def coverage_record_def buoy_record_def buoy_geometry_def
      aggregation_record_def)

lemma harbour_batches:
  "batches_from 0 (c # replicate 999 b @ [a]) = [c # replicate 999 b, [a]]"
proof -
  let ?fs = "c # replicate 999 b @ [a]"
  have "batches_from 0 ?fs = take 1000 ?fs # batches_from 1000 ?fs"
    using batches_from_step [of 0 ?fs] by (simp add: batchSize_def)
  moreover have "batches_from 1000 ?fs = [a] # batches_from 2000 ?fs"
    using batches_from_step [of 1000 ?fs] by (simp add: batchSize_def)
  moreover have "batches_from 2000 ?fs = []"
    by (rule batches_from_done) simp
  ultimately show ?thesis by simp
qed

lemma harbour_good:
  "takeWhile (list_all (feature_accepted harbour_server 2))
     (batches_from 0 (getAllFeatures harbour_chart))
   = [makeFeature ''M_COVR'' coverage_record # replicate 999 (makeFeature ''BOYLAT'' buoy_record)]"
  by (simp add: harbour_features harbour_batches harbour_accepted list_all_iff)

lemma harbour_processFile:
  "processFile harbour_files ''/charts/GB5X01NE.000'' stocked_db =
     (ProcessingResult_default
        \<lparr>resultFileName := ''GB5X01NE.000'', chartName := ''GB5X01NE.000'',
         featureCount := 1001, success := False,
         errorMessage := ''Failed to insert features''\<rparr>,
      \<lparr>conn_Database = Some (harbour_server
         \<lparr>features_table := features_table harbour_server @ map (feature_row 2)
            (makeFeature ''M_COVR'' coverage_record
               # replicate 999 (makeFeature ''BOYLAT'' buoy_record)),
          work_count := 4\<rparr>),
       inTransaction_Database = False\<rparr>)"
proof -
  have op: "isOpen (S57_new harbour_files ''/charts/GB5X01NE.000'')"
    using harbour_isOpen by (simp only: harbour_chart_def)
  have rc: "replaceChart (getChartInfo (S57_new harbour_files ''/charts/GB5X01NE.000'')) stocked_db
     = (Some 2, \<lparr>conn_Database = Some harbour_server, inTransaction_Database = False\<rparr>)"
    using harbour_replaceChart by (simp only: harbour_chart_def)
  have conn: "conn_Database \<lparr>conn_Database = Some harbour_server, inTransaction_Database = False\<rparr>
      = Some harbour_server"
    by simp
  have wc: "work_count harbour_server = 2"
    by (simp add: harbour_server_def)
  have fn: "path_filename ''/charts/GB5X01NE.000'' = ''GB5X01NE.000''"
    by (simp add: path_filename_def)
  show ?thesis
    unfolding processFile_features_stage [OF op rc] processFile_loop_eq [OF conn]
    by (simp add: Let_def harbour_chartInfo harbour_features harbour_batches harbour_accepted
        list_all_iff wc fn flip: harbour_chart_def)
qed

text \<open>
  Claim C4. The loop of \<open>processFile\<close> cuts the feature list into \<open>\<lceil>n / 1000\<rceil>\<close>
  batches of at most 1000 features that concatenate to the list (1, 1 and 2 batches for
  999, 1000 and 1001 features). With \<open>good\<close> the batches before the first one the
  server rejects, the result is a success exactly when \<open>good\<close> is all of them, and then
  the rows of all \<open>n\<close> features are added; otherwise the result is the failure
  \<open>Failed to insert features\<close>; in both cases the features table holds the rows it had
  followed by the rows of the features of \<open>good\<close>.
\<close>

theorem processFile_batches:
  "concat (batches_from 0 fs) = fs
   \<and> int (length (batches_from 0 fs)) = \<lceil>real (length fs) / 1000\<rceil>
   \<and> (\<forall>b \<in> set (batches_from 0 fs). b \<noteq> [] \<and> length b \<le> 1000)
   \<and> (length fs = 999 \<longrightarrow> length (batches_from 0 fs) = 1)
   \<and> (length fs = 1000 \<longrightarrow> length (batches_from 0 fs) = 1)
   \<and> (length fs = 1001 \<longrightarrow> length (batches_from 0 fs) = 2)
   \<and> (s57 = S57_new GDALOpenEx filePath \<and> isOpen s57
        \<and> replaceChart (getChartInfo s57) db = (Some chartId, db1)
        \<and> conn_Database db1 = Some pg
        \<and> fs = getAllFeatures s57
        \<and> good = takeWhile (list_all (feature_accepted pg chartId)) (batches_from 0 fs)
        \<and> res = processFile GDALOpenEx filePath db
      \<longrightarrow> success (fst res) = (length good = length (batches_from 0 fs))
          \<and> (\<not> success (fst res) \<longrightarrow> errorMessage (fst res) = ''Failed to insert features'')
          \<and> (\<exists>pg'. conn_Database (snd res) = Some pg'
                \<and> features_table pg' =
                    features_table pg @ map (feature_row chartId) (concat good)
                \<and> charts_table pg' = charts_table pg)
          \<and> (success (fst res) \<longrightarrow> concat good = fs))"
proof -
  have len: "length (batches_from 0 xs) = (length xs + 999) div 1000" for xs :: "Feature list"
    by (simp add: length_batches_from batchSize_def)
  have cat: "concat (batches_from 0 xs) = xs" for xs :: "Feature list"
    by (simp add: concat_batches_from)
  have stage: "success (fst res) = (length good = length (batches_from 0 fs))
          \<and> (\<not> success (fst res) \<longrightarrow> errorMessage (fst res) = ''Failed to insert features'')
          \<and> (\<exists>pg'. conn_Database (snd res) = Some pg'
                \<and> features_table pg' =
                    features_table pg @ map (feature_row chartId) (concat good)
                \<and> charts_table pg' = charts_table pg)
          \<and> (success (fst res) \<longrightarrow> concat good = fs)"
    if a: "s57 = S57_new GDALOpenEx filePath \<and> isOpen s57
        \<and> replaceChart (getChartInfo s57) db = (Some chartId, db1)
        \<and> conn_Database db1 = Some pg
        \<and> fs = getAllFeatures s57
        \<and> good = takeWhile (list_all (feature_accepted pg chartId)) (batches_from 0 fs)
        \<and> res = processFile GDALOpenEx filePath db"
  proof -
    from a have op: "isOpen (S57_new GDALOpenEx filePath)"
      and rc: "replaceChart (getChartInfo (S57_new GDALOpenEx filePath)) db = (Some chartId, db1)"
      and conn: "conn_Database db1 = Some pg"
      and fs: "getAllFeatures (S57_new GDALOpenEx filePath) = fs"
      and good: "takeWhile (list_all (feature_accepted pg chartId)) (batches_from 0 fs) = good"
      and res: "res = processFile GDALOpenEx filePath db"
      by blast+
    have loop: "processFile_loop 0 fs chartId db1 =
        (length good = length (batches_from 0 fs),
         db1\<lparr>conn_Database := Some (pg
           \<lparr>features_table := features_table pg @ map (feature_row chartId) (concat good),
            work_count := work_count pg
              + (if length good = length (batches_from 0 fs)
                 then length (batches_from 0 fs) else length good + 1)\<rparr>)\<rparr>)"
      by (simp add: processFile_loop_eq [OF conn] good Let_def)
    have all: "concat good = fs" if "length good = length (batches_from 0 fs)"
    proof -
      from that good have "good = batches_from 0 fs"
        by (metis length_takeWhile_less_P_nth nat_neq_iff takeWhile_eq_all_conv
            length_takeWhile_le le_antisym takeWhile_eq_take take_all)
      then show ?thesis by (simp add: cat)
    qed
    show ?thesis
      unfolding res processFile_features_stage [OF op rc] fs Let_def loop
      using all by auto
  qed
  show ?thesis
    using stage
    by (auto simp: cat len ceiling_div_batch dest: batches_from_sizes [of _ 0 fs, unfolded batchSize_def])
qed

theorem processFile_batches_witness:
  "isOpen harbour_chart
   \<and> length (getAllFeatures harbour_chart) = 1001
   \<and> map length (batches_from 0 (getAllFeatures harbour_chart)) = [1000, 1]
   \<and> \<not> success (fst (processFile harbour_files ''/charts/GB5X01NE.000'' stocked_db))
   \<and> errorMessage (fst (processFile harbour_files ''/charts/GB5X01NE.000'' stocked_db))
        = ''Failed to insert features''
   \<and> length (features_table harbour_server) = 2
   \<and> map_option (\<lambda>pg. length (features_table pg))
        (conn_Database (snd (processFile harbour_files ''/charts/GB5X01NE.000'' stocked_db)))
        = Some 1002"
proof -
  let ?res = "processFile harbour_files ''/charts/GB5X01NE.000'' stocked_db"
  let ?fs = "getAllFeatures harbour_chart"
  let ?good = "[makeFeature ''M_COVR'' coverage_record
      # replicate 999 (makeFeature ''BOYLAT'' buoy_record)]"
  let ?db1 = "\<lparr>conn_Database = Some harbour_server, inTransaction_Database = False\<rparr>"
  have hyp: "harbour_chart = S57_new harbour_files ''/charts/GB5X01NE.000'' \<and> isOpen harbour_chart
        \<and> replaceChart (getChartInfo harbour_chart) stocked_db = (Some 2, ?db1)
        \<and> conn_Database ?db1 = Some harbour_server
        \<and> ?fs = getAllFeatures harbour_chart
        \<and> ?good = takeWhile (list_all (feature_accepted harbour_server 2)) (batches_from 0 ?fs)
        \<and> ?res = processFile harbour_files ''/charts/GB5X01NE.000'' stocked_db"
    by (simp add: harbour_isOpen harbour_replaceChart harbour_good) (simp add: harbour_chart_def)
  note inst = processFile_batches
    [of ?fs harbour_chart harbour_files "''/charts/GB5X01NE.000''" stocked_db 2 ?db1
      harbour_server ?good ?res]
  have batches: "batches_from 0 ?fs = [makeFeature ''M_COVR'' coverage_record
      # replicate 999 (makeFeature ''BOYLAT'' buoy_record),
      [makeFeature ''C_AGGR'' aggregation_record]]"
    by (simp add: harbour_features harbour_batches)
  from inst hyp have s: "success (fst ?res) = (length ?good = length (batches_from 0 ?fs))"
    and e: "\<not> success (fst ?res) \<longrightarrow> errorMessage (fst ?res) = ''Failed to insert features''"
    and t: "\<exists>pg'. conn_Database (snd ?res) = Some pg'
        \<and> features_table pg' = features_table harbour_server @ map (feature_row 2) (concat ?good)
        \<and> charts_table pg' = charts_table harbour_server"
    by blast+
  from s have failed: "\<not> success (fst ?res)"
    by (simp add: batches)
  with e have msg: "errorMessage (fst ?res) = ''Failed to insert features''"
    by blast
  have old: "length (features_table harbour_server) = 2"
    by (simp add: harbour_server_def stocked_server_def)
  from t old have rows: "map_option (\<lambda>pg. length (features_table pg)) (conn_Database (snd ?res))
      = Some 1002"
    by auto
  have "length ?fs = 1001" and "map length (batches_from 0 ?fs) = [1000, 1]"
    by (simp_all add: batches) (simp add: harbour_features)
  with harbour_isOpen failed msg old rows show ?thesis
    by (simp only:) simp
qed

text \<open>
  Claim C10. A result that fails with \<open>Failed to insert features\<close> carries as
  \<open>featureCount\<close> the number of features extracted from the file (the \<open>int\<close> that
  \<open>static_cast\<close> makes of it, which is the number itself below \<open>2 ^ 31\<close>), although
  fewer rows than that were added to the features table.
\<close>

theorem processFile_featureCount_on_failure:
  "(res = processFile GDALOpenEx filePath db \<and> s57 = S57_new GDALOpenEx filePath
      \<and> \<not> success (fst res) \<and> errorMessage (fst res) = ''Failed to insert features''
      \<longrightarrow> featureCount (fst res) = of_nat (length (getAllFeatures s57))
          \<and> (length (getAllFeatures s57) < 2 ^ 31
               \<longrightarrow> sint (featureCount (fst res)) = int (length (getAllFeatures s57))))
   \<and> (res = processFile GDALOpenEx filePath db \<and> s57 = S57_new GDALOpenEx filePath
        \<and> \<not> success (fst res) \<and> isOpen s57
        \<and> replaceChart (getChartInfo s57) db = (Some chartId, db1)
        \<and> conn_Database db1 = Some pg \<and> conn_Database (snd res) = Some pg'
      \<longrightarrow> length (features_table pg')
            < length (features_table pg) + length (getAllFeatures s57))"
proof (intro conjI impI)
  assume a: "res = processFile GDALOpenEx filePath db \<and> s57 = S57_new GDALOpenEx filePath
      \<and> \<not> success (fst res) \<and> errorMessage (fst res) = ''Failed to insert features''"
  then have "errorMessage (fst (processFile GDALOpenEx filePath db)) = ''Failed to insert features''"
    and "res = processFile GDALOpenEx filePath db" and "s57 = S57_new GDALOpenEx filePath"
    by blast+
  then show count: "featureCount (fst res) = of_nat (length (getAllFeatures s57))"
    by (simp only: processFile_failure_message)
  assume "length (getAllFeatures s57) < 2 ^ 31"
  then show "sint (featureCount (fst res)) = int (length (getAllFeatures s57))"
    unfolding count by (rule sint_of_nat_small)
next
  let ?fs = "getAllFeatures (S57_new GDALOpenEx filePath)"
  let ?good = "takeWhile (list_all (feature_accepted pg chartId)) (batches_from 0 ?fs)"
  assume a: "res = processFile GDALOpenEx filePath db \<and> s57 = S57_new GDALOpenEx filePath
        \<and> \<not> success (fst res) \<and> isOpen s57
        \<and> replaceChart (getChartInfo s57) db = (Some chartId, db1)
        \<and> conn_Database db1 = Some pg \<and> conn_Database (snd res) = Some pg'"
  then have op: "isOpen (S57_new GDALOpenEx filePath)"
    and rc: "replaceChart (getChartInfo (S57_new GDALOpenEx filePath)) db = (Some chartId, db1)"
    and conn: "conn_Database db1 = Some pg"
    by blast+
  from a have res: "processFile GDALOpenEx filePath db = res" and s57: "s57 = S57_new GDALOpenEx filePath"
    by blast+
  have stage: "res =
     (let r = processFile_loop 0 ?fs chartId db1;
          res0 = ProcessingResult_default
            \<lparr>resultFileName := path_filename filePath,
             chartName := name (getChartInfo (S57_new GDALOpenEx filePath)),
             featureCount := of_nat (length ?fs)\<rparr>
      in if \<not> fst r
         then (res0\<lparr>success := False, errorMessage := ''Failed to insert features''\<rparr>, snd r)
         else (res0\<lparr>success := True\<rparr>, snd r))"
    using processFile_features_stage [OF op rc] by (simp add: res Let_def)
  from a have "\<not> success (fst res)" and "conn_Database (snd res) = Some pg'"
    by blast+
  with stage have short: "length ?good \<noteq> length (batches_from 0 ?fs)"
    and rows: "features_table pg' = features_table pg @ map (feature_row chartId) (concat ?good)"
    by (auto simp: processFile_loop_eq [OF conn] Let_def split: if_splits)
  have "\<forall>b \<in> set (batches_from 0 ?fs). b \<noteq> []"
    using batches_from_sizes by blast
  from length_concat_takeWhile_less [OF this short]
  have "length (concat ?good) < length ?fs"
    by (simp add: concat_batches_from)
  then show "length (features_table pg') < length (features_table pg) + length (getAllFeatures s57)"
    by (simp add: rows s57)
qed

theorem processFile_featureCount_on_failure_witness:
  "\<not> success (fst (processFile harbour_files ''/charts/GB5X01NE.000'' stocked_db))
   \<and> errorMessage (fst (processFile harbour_files ''/charts/GB5X01NE.000'' stocked_db))
        = ''Failed to insert features''
   \<and> length (getAllFeatures harbour_chart) = 1001
   \<and> featureCount (fst (processFile harbour_files ''/charts/GB5X01NE.000'' stocked_db)) = 1001
   \<and> sint (featureCount (fst (processFile harbour_files ''/charts/GB5X01NE.000'' stocked_db)))
        = 1001
   \<and> length (features_table harbour_server) = 2
   \<and> map_option (\<lambda>pg. length (features_table pg))
        (conn_Database (snd (processFile harbour_files ''/charts/GB5X01NE.000'' stocked_db)))
        = Some 1002"
proof -
  let ?res = "processFile harbour_files ''/charts/GB5X01NE.000'' stocked_db"
  have failed: "\<not> success (fst ?res)"
    and msg: "errorMessage (fst ?res) = ''Failed to insert features''"
    and rows: "map_option (\<lambda>pg. length (features_table pg)) (conn_Database (snd ?res))
      = Some 1002"
    by (simp_all add: harbour_processFile) (simp add: harbour_server_def stocked_server_def)
  have n: "length (getAllFeatures harbour_chart) = 1001"
    by (simp add: harbour_features)
  have old: "length (features_table harbour_server) = 2"
    by (simp add: harbour_server_def stocked_server_def)
  have hyp: "?res = processFile harbour_files ''/charts/GB5X01NE.000'' stocked_db
      \<and> harbour_chart = S57_new harbour_files ''/charts/GB5X01NE.000''
      \<and> \<not> success (fst ?res) \<and> errorMessage (fst ?res) = ''Failed to insert features''"
    using failed msg by (simp add: harbour_chart_def)
  from processFile_featureCount_on_failure
    [of ?res harbour_files "''/charts/GB5X01NE.000''" stocked_db harbour_chart] hyp
  have c: "featureCount (fst ?res) = of_nat (length (getAllFeatures harbour_chart))"
    and "length (getAllFeatures harbour_chart) < 2 ^ 31
      \<longrightarrow> sint (featureCount (fst ?res)) = int (length (getAllFeatures harbour_chart))"
    by blast+
  then have "featureCount (fst ?res) = 1001" and "sint (featureCount (fst ?res)) = 1001"
    by (simp_all add: n)
  with failed msg n old rows show ?thesis
    by (simp only:) simp
qed

end
